theory Spec2Isabelle
  imports Main
begin

section \<open>Python values, exceptions and log calls\<close>

text \<open>
  The module \<^verbatim>\<open>rejected/utils.py\<close> is Python 2 code. Its functions have three kinds of
  effect: they mutate module globals or an argument dictionary, they call the operating
  system, and they call the \<^verbatim>\<open>logging\<close> package. A function of the module is modelled as
  a function from the state before the call to a pair of its outcome and the state after
  it; the outcome is either a returned value or the exception that leaves the function.
  The state is returned in both cases, since everything done before a \<^verbatim>\<open>raise\<close> stays
  done.
\<close>

datatype pyval =
    PNone
  | PBool bool
  | PInt int
  | PStr string
  | PList "pyval list"
  | PDict "(string \<times> pyval) list"

datatype exn =
    KeyError pyval
  | TypeError
  | IndexError
  | IOError string
  | OSError string
  | SocketError
  | SystemExit int
  | CallbackError string

datatype 'a res = Ok 'a | Raise exn

text \<open>
  A call of a logger method: the logger's name (\<^verbatim>\<open>root\<close> for the module-level functions
  \<^verbatim>\<open>logging.info\<close> and \<^verbatim>\<open>logging.error\<close>), the numeric level, the format string and the
  arguments. The arguments are kept apart from the format string, as \<^verbatim>\<open>logging\<close> does
  until a handler emits the record.
\<close>

datatype logarg = AStr string | AInt int | ARepr string | AHandler "nat option"

datatype logrec = LogRec string int string "logarg list"

definition NOTSET :: int where "NOTSET = 0"
definition DEBUG :: int where "DEBUG = 10"
definition INFO :: int where "INFO = 20"
definition WARNING :: int where "WARNING = 30"
definition ERROR :: int where "ERROR = 40"
definition CRITICAL :: int where "CRITICAL = 50"

definition LOGGER :: string where "LOGGER = ''rejected.utils''"

section \<open>Lifecycle state and the signal dispatcher\<close>

text \<open>
  The signal numbers of \<^verbatim>\<open>signal.SIGHUP\<close>, \<^verbatim>\<open>signal.SIGUSR1\<close> and \<^verbatim>\<open>signal.SIGTERM\<close> are
  those of Linux. A callback is an application function or method, named by a number; what
  it does when called belongs to the application, so a call is recorded in \<open>invoked\<close> and
  its only outcome seen here is whether it raises (\<open>cb_raises\<close>). A function or method
  object is always true in a Python condition, so a handler slot is false exactly when it
  holds \<^verbatim>\<open>None\<close>.
\<close>

definition SIGHUP :: int where "SIGHUP = 1"
definition SIGUSR1 :: int where "SIGUSR1 = 10"
definition SIGTERM :: int where "SIGTERM = 15"

type_synonym callback = nat

text \<open>One entry of \<^verbatim>\<open>traceback.extract_stack\<close>: file name, line number, function name, source line.\<close>

type_synonym frame_entry = "string \<times> int \<times> string \<times> string option"

record lifecycle =
  REHASH_HANDLER :: "callback option"
  SHUTDOWN_HANDLER :: "callback option"
  RUNNING :: bool
  logged :: "logrec list"
  invoked :: "callback list"
  cb_raises :: "callback \<Rightarrow> bool"
  current_frames :: "frame_entry list list"

definition SIGNALS :: "int \<Rightarrow> string option" where
  "SIGNALS = [SIGTERM \<mapsto> ''SIGTERM'', SIGHUP \<mapsto> ''SIGHUP'', SIGUSR1 \<mapsto> ''SIGUSR1'']"

definition log_call :: "string \<Rightarrow> int \<Rightarrow> string \<Rightarrow> logarg list \<Rightarrow> lifecycle \<Rightarrow> lifecycle" where
  "log_call name lvl fmt args s = s\<lparr>logged := logged s @ [LogRec name lvl fmt args]\<rparr>"

definition is_space :: "char \<Rightarrow> bool" where
  "is_space c = (c \<in> set [CHR '' '', CHR 0x09, CHR 0x0A, CHR 0x0B, CHR 0x0C, CHR 0x0D])"

definition strip :: "string \<Rightarrow> string" where
  "strip s = rev (dropWhile is_space (rev (dropWhile is_space s)))"

fun show_stack :: "frame_entry list \<Rightarrow> lifecycle \<Rightarrow> lifecycle" where
  "show_stack [] s = s"
| "show_stack ((filename, lineno, name, line) # rest) s =
     (let s1 = log_call LOGGER INFO ''  File: \"%s\", line %d, in %s''
                 [AStr filename, AInt lineno, AStr name] s;
          s2 = (case line of
                  None \<Rightarrow> s1
                | Some l \<Rightarrow> if l = [] then s1
                            else log_call LOGGER INFO ''    %s'' [AStr (strip l)] s1)
      in show_stack rest s2)"

fun show_stacks :: "frame_entry list list \<Rightarrow> lifecycle \<Rightarrow> lifecycle" where
  "show_stacks [] s = s"
| "show_stacks (stack # rest) s = show_stacks rest (show_stack stack s)"

definition show_frames :: "lifecycle \<Rightarrow> lifecycle" where
  "show_frames s = show_stacks (current_frames s) s"

definition call_handler :: "callback \<Rightarrow> lifecycle \<Rightarrow> unit res \<times> lifecycle" where
  "call_handler cb s =
     (let s1 = s\<lparr>invoked := invoked s @ [cb]\<rparr>
      in if cb_raises s cb then (Raise (CallbackError ''callback''), s1) else (Ok (), s1))"

text \<open>
  \<^verbatim>\<open>signal_handler(signum, frame)\<close>. The first statement evaluates \<^verbatim>\<open>_SIGNALS[signum]\<close>
  as an argument of the logger call, so a missing key raises before anything is logged.
\<close>

definition signal_handler :: "int \<Rightarrow> string \<Rightarrow> lifecycle \<Rightarrow> unit res \<times> lifecycle" where
  "signal_handler signum frame s =
     (case SIGNALS signum of
        None \<Rightarrow> (Raise (KeyError (PInt signum)), s)
      | Some signame \<Rightarrow>
          (let s1 = log_call LOGGER INFO ''Signal received: %s, %r''
                      [AStr signame, ARepr frame] s
           in if signum = SIGTERM \<and> SHUTDOWN_HANDLER s1 \<noteq> None then
                call_handler (the (SHUTDOWN_HANDLER s1))
                  (log_call LOGGER DEBUG ''Calling shutdown handler: %r''
                     [AHandler (SHUTDOWN_HANDLER s1)] s1)
              else if signum = SIGHUP \<and> REHASH_HANDLER s1 \<noteq> None then
                call_handler (the (REHASH_HANDLER s1)) s1
              else if signum = SIGUSR1 then
                (Ok (), show_frames s1)
              else
                (case SIGNALS signum of
                   None \<Rightarrow> (Raise (KeyError (PInt signum)), s1)
                 | Some signame' \<Rightarrow>
                     (Ok (), log_call LOGGER INFO ''No valid signal handler defined: %s''
                               [AStr signame'] s1))))"

text \<open>
  \<^verbatim>\<open>rehash_handler(handler)\<close> and \<^verbatim>\<open>shutdown_handler(handler)\<close> store their argument,
  whatever it is (\<open>None\<close> is Python's \<^verbatim>\<open>None\<close>), and log the new value.
\<close>

definition rehash_handler :: "callback option \<Rightarrow> lifecycle \<Rightarrow> lifecycle" where
  "rehash_handler handler s =
     log_call LOGGER DEBUG ''Rehash handler set to %r'' [AHandler handler]
       (s\<lparr>REHASH_HANDLER := handler\<rparr>)"

definition shutdown_handler :: "callback option \<Rightarrow> lifecycle \<Rightarrow> lifecycle" where
  "shutdown_handler handler s =
     log_call LOGGER DEBUG ''Shutdown handler set to %r'' [AHandler handler]
       (s\<lparr>SHUTDOWN_HANDLER := handler\<rparr>)"

text \<open>The module as it is after import: no handler, not running, nothing logged or called.\<close>

definition module_init :: "(callback \<Rightarrow> bool) \<Rightarrow> frame_entry list list \<Rightarrow> lifecycle" where
  "module_init raises frames =
     \<lparr>REHASH_HANDLER = None, SHUTDOWN_HANDLER = None, RUNNING = False, logged = [],
      invoked = [], cb_raises = raises, current_frames = frames\<rparr>"

section \<open>Strings and paths\<close>

text \<open>
  \<^verbatim>\<open>'%i' % n\<close>: the decimal digits of an integer, with a minus sign when it is negative.
\<close>

definition digit_char :: "nat \<Rightarrow> char" where
  "digit_char d = ''0123456789'' ! (d mod 10)"

function dec_nat :: "nat \<Rightarrow> string" where
  "dec_nat n = (if n < 10 then [digit_char n] else dec_nat (n div 10) @ [digit_char (n mod 10)])"
  by pat_completeness auto
termination
  by (relation "measure (\<lambda>n. n)") auto

declare dec_nat.simps [simp del]

definition fmt_i :: "int \<Rightarrow> string" where
  "fmt_i i = (if i < 0 then CHR ''-'' # dec_nat (nat (- i)) else dec_nat (nat i))"

text \<open>
  The reading of a decimal string, as \<^verbatim>\<open>int(s)\<close> reads what \<^verbatim>\<open>'%i'\<close> wrote. It is not
  part of the module; it states that the content of the PID file parses back to the
  process id.
\<close>

definition digit_val :: "char \<Rightarrow> nat" where
  "digit_val c = of_char c - 48"

definition parse_nat :: "string \<Rightarrow> nat" where
  "parse_nat ds = foldl (\<lambda>acc c. 10 * acc + digit_val c) 0 ds"

definition parse_int :: "string \<Rightarrow> int" where
  "parse_int str =
     (case str of
        [] \<Rightarrow> 0
      | c # ds \<Rightarrow> if c = CHR ''-'' then - int (parse_nat ds) else int (parse_nat str))"

text \<open>
  \<^verbatim>\<open>path.split(p)[1]\<close> of \<^verbatim>\<open>posixpath\<close>: everything after the last slash of \<open>p\<close>.
\<close>

definition path_split_tail :: "string \<Rightarrow> string" where
  "path_split_tail p = rev (takeWhile (\<lambda>c. c \<noteq> CHR ''/'') (rev p))"

text \<open>\<^verbatim>\<open>s.split(sep)\<close> for a one-character separator, and \<^verbatim>\<open>sep.join(parts)\<close>.\<close>

fun split_on :: "char \<Rightarrow> string \<Rightarrow> string list" where
  "split_on sep [] = [[]]"
| "split_on sep (c # cs) =
     (if c = sep then [] # split_on sep cs
      else (case split_on sep cs of
              [] \<Rightarrow> [[c]]
            | w # ws \<Rightarrow> (c # w) # ws))"

fun join :: "char \<Rightarrow> string list \<Rightarrow> string" where
  "join sep [] = []"
| "join sep [w] = w"
| "join sep (w # ws) = w @ sep # join sep ws"

text \<open>
  \<^verbatim>\<open>posixpath.normpath\<close> of the standard library (the module itself only calls it):
  empty and \<^verbatim>\<open>.\<close> components are dropped, \<^verbatim>\<open>..\<close> removes the component before it, and
  one leading slash is kept (two, when the path starts with exactly two).
\<close>

fun norm_comps :: "nat \<Rightarrow> string list \<Rightarrow> string list \<Rightarrow> string list" where
  "norm_comps initial_slashes [] new_comps = new_comps"
| "norm_comps initial_slashes (part # parts) new_comps =
     (if part = [] \<or> part = ''.'' then norm_comps initial_slashes parts new_comps
      else if part \<noteq> ''..'' \<or> (initial_slashes = 0 \<and> new_comps = [])
                \<or> (new_comps \<noteq> [] \<and> last new_comps = ''..'')
        then norm_comps initial_slashes parts (new_comps @ [part])
      else if new_comps \<noteq> [] then norm_comps initial_slashes parts (butlast new_comps)
      else norm_comps initial_slashes parts new_comps)"

definition normpath :: "string \<Rightarrow> string" where
  "normpath p =
     (if p = [] then ''.''
      else
        (let initial_slashes =
               (if take 1 p = ''/'' then
                  (if take 2 p = ''//'' \<and> take 3 p \<noteq> ''///'' then 2 else 1)
                else (0::nat));
             comps = norm_comps initial_slashes (split_on CHR ''/'' p) [];
             p' = replicate initial_slashes CHR ''/'' @ join CHR ''/'' comps
         in if p' = [] then ''.'' else p'))"

definition application_name :: "string \<Rightarrow> string" where
  "application_name argv0 = path_split_tail argv0"

section \<open>The daemonizer\<close>

text \<open>
  The operating system as \<^verbatim>\<open>daemonize\<close> meets it. Every call it makes is written to the
  process's \<open>trace\<close>; whether a call fails is decided by the environment (\<open>fails\<close>), and a
  failed call raises and changes nothing else. \<^verbatim>\<open>os.fork\<close> returns in two processes: in
  the parent it returns the child's process id, in the child it returns 0 and the process
  has a new id of its own. One run of \<^verbatim>\<open>daemonize\<close> in one process is therefore a
  function of the answers that process gets from its two \<^verbatim>\<open>fork\<close> calls.
\<close>

datatype syscall =
    SFlush string
  | SGetpwnam string
  | SFork
  | SOpen string string
  | SWrite string string
  | SFchown string int int
  | SChdir string
  | SUmask nat
  | SSetsid
  | SDup2 string nat
  | SSeteuid int

datatype fork_answer = ForkFails | InParent int | InChild int

record pfile =
  content :: string
  owner_uid :: int
  owner_gid :: int

record os_env =
  SUPPORTS_PWD :: bool
  passwd :: "string \<Rightarrow> int option"
  argv0 :: string
  fork1 :: fork_answer
  fork2 :: fork_answer
  fails :: "syscall \<Rightarrow> bool"

record proc =
  proc_pid :: int
  proc_euid :: int
  proc_egid :: int
  proc_cwd :: string
  proc_umask :: nat
  session_leader :: bool
  std_fds :: "string list"
  files :: "string \<Rightarrow> pfile option"
  plog :: "logrec list"
  trace :: "syscall list"

definition DEFAULT_GID :: int where "DEFAULT_GID = 1"

definition then_do :: "'a res \<times> 's \<Rightarrow> ('a \<Rightarrow> 's \<Rightarrow> 'b res \<times> 's) \<Rightarrow> 'b res \<times> 's" where
  "then_do m f = (case m of (Ok a, s) \<Rightarrow> f a s | (Raise e, s) \<Rightarrow> (Raise e, s))"

definition truthy :: "string option \<Rightarrow> bool" where
  "truthy v = (case v of None \<Rightarrow> False | Some str \<Rightarrow> str \<noteq> [])"

definition traced :: "syscall \<Rightarrow> proc \<Rightarrow> proc" where
  "traced c s = s\<lparr>trace := trace s @ [c]\<rparr>"

definition plog_call :: "string \<Rightarrow> int \<Rightarrow> string \<Rightarrow> logarg list \<Rightarrow> proc \<Rightarrow> proc" where
  "plog_call name lvl fmt args s = s\<lparr>plog := plog s @ [LogRec name lvl fmt args]\<rparr>"

definition flush :: "os_env \<Rightarrow> string \<Rightarrow> proc \<Rightarrow> unit res \<times> proc" where
  "flush env stream s =
     (if fails env (SFlush stream) then (Raise (IOError stream), traced (SFlush stream) s)
      else (Ok (), traced (SFlush stream) s))"

text \<open>\<^verbatim>\<open>pwd.getpwnam(user).pw_uid\<close>: \<^verbatim>\<open>KeyError\<close> for a name the user database does not hold.\<close>

definition getpwnam_uid :: "os_env \<Rightarrow> string \<Rightarrow> proc \<Rightarrow> int res \<times> proc" where
  "getpwnam_uid env user s =
     (case passwd env user of
        None \<Rightarrow> (Raise (KeyError (PStr user)), traced (SGetpwnam user) s)
      | Some uid \<Rightarrow> (Ok uid, traced (SGetpwnam user) s))"

definition os_fork :: "fork_answer \<Rightarrow> proc \<Rightarrow> int res \<times> proc" where
  "os_fork answer s =
     (case answer of
        ForkFails \<Rightarrow> (Raise (OSError ''fork''), traced SFork s)
      | InParent child \<Rightarrow> (Ok child, traced SFork s)
      | InChild own \<Rightarrow> (Ok 0, (traced SFork s)\<lparr>proc_pid := own\<rparr>))"

definition sys_exit :: "int \<Rightarrow> proc \<Rightarrow> 'a res \<times> proc" where
  "sys_exit status s = (Raise (SystemExit status), s)"

text \<open>
  \<^verbatim>\<open>open(path, 'w')\<close> creates the file, owned by the process, or empties an existing one
  and leaves its owner.
\<close>

definition open_w :: "os_env \<Rightarrow> string \<Rightarrow> proc \<Rightarrow> unit res \<times> proc" where
  "open_w env path s =
     (if fails env (SOpen path ''w'') then (Raise (IOError path), traced (SOpen path ''w'') s)
      else (Ok (), (traced (SOpen path ''w'') s)\<lparr>files := (files s)(path \<mapsto>
              (case files s path of
                 None \<Rightarrow> \<lparr>content = [], owner_uid = proc_euid s, owner_gid = proc_egid s\<rparr>
               | Some f \<Rightarrow> f\<lparr>content := []\<rparr>))\<rparr>))"

definition write_file :: "os_env \<Rightarrow> string \<Rightarrow> string \<Rightarrow> proc \<Rightarrow> unit res \<times> proc" where
  "write_file env path data s =
     (if fails env (SWrite path data) then (Raise (IOError path), traced (SWrite path data) s)
      else (Ok (), (traced (SWrite path data) s)\<lparr>files :=
              (case files s path of
                 None \<Rightarrow> files s
               | Some f \<Rightarrow> (files s)(path \<mapsto> f\<lparr>content := content f @ data\<rparr>))\<rparr>))"

definition fchown :: "os_env \<Rightarrow> string \<Rightarrow> int \<Rightarrow> int \<Rightarrow> proc \<Rightarrow> unit res \<times> proc" where
  "fchown env path uid gid s =
     (if fails env (SFchown path uid gid)
        then (Raise (OSError ''fchown''), traced (SFchown path uid gid) s)
      else (Ok (), (traced (SFchown path uid gid) s)\<lparr>files :=
              (case files s path of
                 None \<Rightarrow> files s
               | Some f \<Rightarrow> (files s)(path \<mapsto> f\<lparr>owner_uid := uid, owner_gid := gid\<rparr>))\<rparr>))"

definition chdir :: "os_env \<Rightarrow> string \<Rightarrow> proc \<Rightarrow> unit res \<times> proc" where
  "chdir env path s =
     (if fails env (SChdir path) then (Raise (OSError ''chdir''), traced (SChdir path) s)
      else (Ok (), (traced (SChdir path) s)\<lparr>proc_cwd := path\<rparr>))"

definition umask :: "os_env \<Rightarrow> nat \<Rightarrow> proc \<Rightarrow> unit res \<times> proc" where
  "umask env new_mask s =
     (if fails env (SUmask new_mask) then (Raise (OSError ''umask''), traced (SUmask new_mask) s)
      else (Ok (), (traced (SUmask new_mask) s)\<lparr>proc_umask := new_mask\<rparr>))"

definition setsid :: "os_env \<Rightarrow> proc \<Rightarrow> unit res \<times> proc" where
  "setsid env s =
     (if fails env SSetsid then (Raise (OSError ''setsid''), traced SSetsid s)
      else (Ok (), (traced SSetsid s)\<lparr>session_leader := True\<rparr>))"

text \<open>\<^verbatim>\<open>file('/dev/null', mode)\<close>: the opened file is named by its path.\<close>

definition file_open :: "os_env \<Rightarrow> string \<Rightarrow> string \<Rightarrow> proc \<Rightarrow> string res \<times> proc" where
  "file_open env path mode s =
     (if fails env (SOpen path mode) then (Raise (IOError path), traced (SOpen path mode) s)
      else (Ok path, traced (SOpen path mode) s))"

definition dup2 :: "os_env \<Rightarrow> string \<Rightarrow> nat \<Rightarrow> proc \<Rightarrow> unit res \<times> proc" where
  "dup2 env src fd s =
     (if fails env (SDup2 src fd) then (Raise (OSError ''dup2''), traced (SDup2 src fd) s)
      else (Ok (), (traced (SDup2 src fd) s)\<lparr>std_fds := (std_fds s)[fd := src]\<rparr>))"

definition seteuid :: "os_env \<Rightarrow> int \<Rightarrow> proc \<Rightarrow> unit res \<times> proc" where
  "seteuid env uid s =
     (if fails env (SSeteuid uid) then (Raise (OSError ''seteuid''), traced (SSeteuid uid) s)
      else (Ok (), (traced (SSeteuid uid) s)\<lparr>proc_euid := uid\<rparr>))"

text \<open>
  Lines 103 to 108, the \<^verbatim>\<open>with\<close> block of the intermediate process: the file is closed
  when the block is left, also by an exception, so what was written stays written.
\<close>

definition write_pidfile :: "os_env \<Rightarrow> string \<Rightarrow> int \<Rightarrow> int \<Rightarrow> proc \<Rightarrow> unit res \<times> proc" where
  "write_pidfile env pidfile pid uid s0 =
     then_do (open_w env pidfile s0) (\<lambda>_ s.
     then_do (write_file env pidfile (fmt_i pid @ [CHR 0x0A]) s) (\<lambda>_ s.
     if uid > - 1 then fchown env pidfile uid DEFAULT_GID s else (Ok (), s)))"

text \<open>
  Lines 113 to 138, the process that the second \<^verbatim>\<open>fork\<close> created. Only \<^verbatim>\<open>OSError\<close> from
  \<^verbatim>\<open>os.seteuid\<close> is caught.
\<close>

definition switch_user :: "os_env \<Rightarrow> string option \<Rightarrow> int \<Rightarrow> proc \<Rightarrow> bool res \<times> proc" where
  "switch_user env user uid s0 =
     (let s = (if truthy user
               then plog_call ''root'' INFO ''Changing the running user to %s'' [AStr (the user)] s0
               else s0)
      in if uid > - 1 \<and> uid \<noteq> proc_euid s then
           (case seteuid env uid s of
              (Ok _, s') \<Rightarrow>
                (Ok True, plog_call LOGGER DEBUG ''User changed to %s(%i)''
                            [AStr (case user of None \<Rightarrow> ''None'' | Some u \<Rightarrow> u), AInt uid] s')
            | (Raise (OSError error), s') \<Rightarrow>
                (Ok True, plog_call LOGGER ERROR ''Could not set the user: %s'' [AStr error] s')
            | (Raise e, s') \<Rightarrow> (Raise e, s'))
         else (Ok True, s))"

definition detach :: "os_env \<Rightarrow> string option \<Rightarrow> int \<Rightarrow> proc \<Rightarrow> bool res \<times> proc" where
  "detach env user uid s0 =
     then_do (chdir env (normpath ''/'') s0) (\<lambda>_ s.
     then_do (umask env 0 s) (\<lambda>_ s.
     then_do (setsid env s) (\<lambda>_ s.
     then_do (file_open env ''/dev/null'' ''r'' s) (\<lambda>stdin_h s.
     then_do (file_open env ''/dev/null'' ''a+'' s) (\<lambda>stdout_h s.
     then_do (file_open env ''/dev/null'' ''a+'' s) (\<lambda>stderr_h s.
     then_do (dup2 env stdin_h 0 s) (\<lambda>_ s.
     then_do (dup2 env stdout_h 1 s) (\<lambda>_ s.
     then_do (dup2 env stderr_h 2 s) (\<lambda>_ s.
     switch_user env user uid s)))))))))"

text \<open>
  \<^verbatim>\<open>daemonize(pidfile=None, user=None)\<close>. \<^verbatim>\<open>pidfile or ...\<close> takes the default path also
  for an empty string, and \<^verbatim>\<open>and user\<close> is false for an empty string as for \<^verbatim>\<open>None\<close>.
\<close>

definition daemonize :: "os_env \<Rightarrow> string option \<Rightarrow> string option \<Rightarrow> proc \<Rightarrow> bool res \<times> proc" where
  "daemonize env pidfile user s0 =
     then_do (flush env ''stdout'' s0) (\<lambda>_ s.
     then_do (flush env ''stderr'' s) (\<lambda>_ s.
     then_do (if SUPPORTS_PWD env \<and> truthy user then getpwnam_uid env (the user) s
              else (Ok (- 1), s)) (\<lambda>uid s.
     then_do (os_fork (fork1 env) s) (\<lambda>pid s.
     if pid > 0 then sys_exit 0 s
     else
       then_do (os_fork (fork2 env) s) (\<lambda>pid s.
       if pid > 0 then
         (let pidfile' = (if truthy pidfile then the pidfile
                          else normpath (''/tmp/'' @ application_name (argv0 env) @ ''-''
                                           @ fmt_i pid @ ''.pid''))
          in then_do (write_pidfile env pidfile' pid uid s) (\<lambda>_ s. sys_exit 0 s))
       else detach env user uid s)))))"

text \<open>
  The three processes of one call, when both \<^verbatim>\<open>fork\<close> calls succeed: the caller, which
  gets \<open>child\<close> from the first \<^verbatim>\<open>fork\<close>; the intermediate process, which is that child and
  gets \<open>grandchild\<close> from the second; and the process the second \<^verbatim>\<open>fork\<close> created. The code
  does not order the last two. The file system is shared, and the surviving process is
  given the files as the intermediate process leaves them, so its final state shows the
  file system once both have finished.
\<close>

definition daemonize_tree ::
  "os_env \<Rightarrow> int \<Rightarrow> int \<Rightarrow> string option \<Rightarrow> string option \<Rightarrow> proc
     \<Rightarrow> (bool res \<times> proc) \<times> (bool res \<times> proc) \<times> (bool res \<times> proc)" where
  "daemonize_tree env child grandchild pidfile user s0 =
     (let caller = daemonize (env\<lparr>fork1 := InParent child\<rparr>) pidfile user s0;
          intermediate = daemonize (env\<lparr>fork1 := InChild child, fork2 := InParent grandchild\<rparr>)
                           pidfile user s0;
          survivor = daemonize (env\<lparr>fork1 := InChild child, fork2 := InChild grandchild\<rparr>)
                       pidfile user (s0\<lparr>files := files (snd intermediate)\<rparr>)
      in (caller, intermediate, survivor))"

text \<open>
  What a run leaves alone when it does nothing for a user, between the process state
  \<open>s0\<close> before and the state \<open>s\<close> after: the calls made are added at the end of the trace,
  and none of them is \<^verbatim>\<open>pwd.getpwnam\<close>, \<^verbatim>\<open>os.fchown\<close> or \<^verbatim>\<open>os.seteuid\<close>; the effective uid and
  gid are the same; a file that existed has its owner and group, and a file that has been
  created belongs to the process. Such a run \<open>r\<close> does not end in a \<^verbatim>\<open>KeyError\<close> either.
\<close>

definition user_call :: "syscall \<Rightarrow> bool" where
  "user_call c =
     (case c of SGetpwnam _ \<Rightarrow> True | SFchown _ _ _ \<Rightarrow> True | SSeteuid _ \<Rightarrow> True | _ \<Rightarrow> False)"

definition user_untouched :: "proc \<Rightarrow> proc \<Rightarrow> bool" where
  "user_untouched s0 s =
     ((\<exists>calls. trace s = trace s0 @ calls \<and> list_all (\<lambda>c. \<not> user_call c) calls) \<and>
      proc_euid s = proc_euid s0 \<and> proc_egid s = proc_egid s0 \<and>
      (\<forall>path. case files s0 path of
                 Some f0 \<Rightarrow> (\<exists>f. files s path = Some f \<and> owner_uid f = owner_uid f0 \<and>
                                   owner_gid f = owner_gid f0)
               | None \<Rightarrow> (case files s path of
                            Some f \<Rightarrow> owner_uid f = proc_euid s0 \<and> owner_gid f = proc_egid s0
                          | None \<Rightarrow> True)))"

definition ignores_user :: "proc \<Rightarrow> 'a res \<times> proc \<Rightarrow> bool" where
  "ignores_user s0 r =
     (user_untouched s0 (snd r) \<and> (case fst r of Raise (KeyError _) \<Rightarrow> False | _ \<Rightarrow> True))"

text \<open>A machine and a process to evaluate on.\<close>

definition env0 :: os_env where
  "env0 = \<lparr>SUPPORTS_PWD = True, passwd = [''daemon'' \<mapsto> 2], argv0 = ''/usr/bin/rejected'',
           fork1 = InChild 101, fork2 = InChild 102, fails = (\<lambda>_. False)\<rparr>"

definition proc0 :: proc where
  "proc0 = \<lparr>proc_pid = 100, proc_euid = 0, proc_egid = 0, proc_cwd = ''/home/app'',
            proc_umask = 18,
            session_leader = False, std_fds = [''tty'', ''tty'', ''tty''],
            files = Map.empty, plog = [], trace = []\<rparr>"

text \<open>
  Three variations of that machine: one where the PID file's directory does not exist, one
  without the \<^verbatim>\<open>pwd\<close> module, and one where the process may not change its user.
\<close>

definition env_unwritable :: os_env where
  "env_unwritable = env0\<lparr>fails := (\<lambda>c. c = SOpen ''/nonexistent/rejected.pid'' ''w'')\<rparr>"

definition env_no_pwd :: os_env where
  "env_no_pwd = env0\<lparr>SUPPORTS_PWD := False, passwd := (\<lambda>_. None)\<rparr>"

definition env_unprivileged :: os_env where
  "env_unprivileged = env0\<lparr>fails := (\<lambda>c. c = SSeteuid 2)\<rparr>"

section \<open>The logging backend builder\<close>

text \<open>
  The configuration is a Python dictionary with string keys, as \<^verbatim>\<open>yaml.load\<close> gives it
  and as \<^verbatim>\<open>**config\<close> requires. Its values are any YAML values. \<^verbatim>\<open>setup_logging\<close>
  changes the caller's dictionary, so the dictionary after the call is part of the result.
\<close>

type_synonym config = "string \<Rightarrow> pyval option"

definition truthy_val :: "pyval \<Rightarrow> bool" where
  "truthy_val v =
     (case v of
        PNone \<Rightarrow> False
      | PBool b \<Rightarrow> b
      | PInt i \<Rightarrow> i \<noteq> 0
      | PStr str \<Rightarrow> str \<noteq> []
      | PList l \<Rightarrow> l \<noteq> []
      | PDict d \<Rightarrow> d \<noteq> [])"

definition hashable :: "pyval \<Rightarrow> bool" where
  "hashable v = (case v of PList _ \<Rightarrow> False | PDict _ \<Rightarrow> False | _ \<Rightarrow> True)"

definition LEVELS :: "pyval \<Rightarrow> int option" where
  "LEVELS = [PStr ''debug'' \<mapsto> DEBUG, PStr ''info'' \<mapsto> INFO, PStr ''warning'' \<mapsto> WARNING,
             PStr ''error'' \<mapsto> ERROR, PStr ''critical'' \<mapsto> CRITICAL]"

text \<open>\<^verbatim>\<open>LEVELS.get(key, logging.NOTSET)\<close>: a list or a dictionary cannot be a key.\<close>

definition LEVELS_get :: "pyval \<Rightarrow> int res" where
  "LEVELS_get key =
     (if hashable key then Ok (case LEVELS key of None \<Rightarrow> NOTSET | Some level \<Rightarrow> level)
      else Raise TypeError)"

text \<open>\<^verbatim>\<open>obj[key]\<close> for a string key: only a dictionary can be indexed by a string.\<close>

definition getitem :: "pyval \<Rightarrow> string \<Rightarrow> pyval res" where
  "getitem obj key =
     (case obj of
        PDict d \<Rightarrow> (case map_of d key of None \<Rightarrow> Raise (KeyError (PStr key)) | Some v \<Rightarrow> Ok v)
      | _ \<Rightarrow> Raise TypeError)"

text \<open>
  The part of the \<^verbatim>\<open>logging\<close> package that \<^verbatim>\<open>setup_logging\<close> meets, after the standard
  library of Python 2.7: the handlers and the level of the root logger, the level below
  which every logger is disabled (\<^verbatim>\<open>logging.disable\<close>, kept in \<^verbatim>\<open>Logger.manager.disable\<close>),
  the levels set on named loggers, the records that loggers have made (\<open>emitted\<close>: a call
  of a logging method makes a record only if the logger is enabled for the level), and
  the keyword arguments of each call of \<^verbatim>\<open>logging.basicConfig\<close>. A \<^verbatim>\<open>FileHandler\<close> is a
  \<^verbatim>\<open>StreamHandler\<close>; a \<^verbatim>\<open>SysLogHandler\<close> is not. Whether a log file can be opened and
  whether a syslog address can be reached is given with the state.
\<close>

datatype handler =
    StreamHandler pyval pyval pyval
  | FileHandler string pyval pyval pyval
  | SysLogHandler pyval int

record logging =
  root_handlers :: "handler list"
  root_level :: int
  manager_disable :: int
  logger_levels :: "string \<Rightarrow> int option"
  emitted :: "logrec list"
  basic_config_args :: "config list"
  openable :: "string \<Rightarrow> bool"
  syslog_reachable :: "pyval \<Rightarrow> bool"
  sys_argv0 :: string

definition BASIC_FORMAT :: string where
  "BASIC_FORMAT = ''%(levelname)s:%(name)s:%(message)s''"

definition kwargs_get :: "config \<Rightarrow> string \<Rightarrow> pyval \<Rightarrow> pyval" where
  "kwargs_get kwargs key dflt = (case kwargs key of None \<Rightarrow> dflt | Some v \<Rightarrow> v)"

definition root_setLevel :: "pyval \<Rightarrow> logging \<Rightarrow> unit res \<times> logging" where
  "root_setLevel level lg =
     (case level of
        PInt n \<Rightarrow> (Ok (), lg\<lparr>root_level := n\<rparr>)
      | _ \<Rightarrow> (Raise TypeError, lg))"

definition new_handler :: "config \<Rightarrow> logging \<Rightarrow> handler res \<times> logging" where
  "new_handler kwargs lg =
     (let filename = kwargs_get kwargs ''filename'' PNone;
          fs = kwargs_get kwargs ''format'' (PStr BASIC_FORMAT);
          dfs = kwargs_get kwargs ''datefmt'' PNone
      in if truthy_val filename then
           (case filename of
              PStr name \<Rightarrow>
                if openable lg name
                then (Ok (FileHandler name (kwargs_get kwargs ''filemode'' (PStr ''a'')) fs dfs), lg)
                else (Raise (IOError name), lg)
            | _ \<Rightarrow> (Raise TypeError, lg))
         else (Ok (StreamHandler (kwargs_get kwargs ''stream'' PNone) fs dfs), lg))"

text \<open>
  \<^verbatim>\<open>logging.basicConfig(**kwargs)\<close> of Python 2.7: it does nothing when the root logger has
  a handler already; it reads \<^verbatim>\<open>filename\<close>, \<^verbatim>\<open>filemode\<close>, \<^verbatim>\<open>stream\<close>, \<^verbatim>\<open>format\<close>, \<^verbatim>\<open>datefmt\<close>
  and \<^verbatim>\<open>level\<close> and ignores every other keyword.
\<close>

definition basicConfig :: "config \<Rightarrow> logging \<Rightarrow> unit res \<times> logging" where
  "basicConfig kwargs lg0 =
     (let lg = lg0\<lparr>basic_config_args := basic_config_args lg0 @ [kwargs]\<rparr>
      in if root_handlers lg = [] then
           then_do (new_handler kwargs lg) (\<lambda>hdlr lg.
             (let lg' = lg\<lparr>root_handlers := root_handlers lg @ [hdlr]\<rparr>;
                  level = kwargs_get kwargs ''level'' PNone
              in if level \<noteq> PNone then root_setLevel level lg' else (Ok (), lg')))
         else (Ok (), lg))"

text \<open>
  \<^verbatim>\<open>set_logger_level(name, level)\<close>, that is \<^verbatim>\<open>logging.getLogger(name).setLevel(level)\<close>.
  \<^verbatim>\<open>logging.getLogger\<close> returns the root logger for every name that is false (\<^verbatim>\<open>None\<close>, the
  empty string, \<^verbatim>\<open>0\<close>, an empty list); any other name must be a string, or
  \<^verbatim>\<open>Manager.getLogger\<close> raises \<^verbatim>\<open>TypeError\<close>.
\<close>

definition set_logger_level :: "pyval \<Rightarrow> int \<Rightarrow> logging \<Rightarrow> unit res \<times> logging" where
  "set_logger_level name level lg =
     (if \<not> truthy_val name then (Ok (), lg\<lparr>root_level := level\<rparr>)
      else (case name of
              PStr n \<Rightarrow> (Ok (), lg\<lparr>logger_levels := (logger_levels lg)(n \<mapsto> level)\<rparr>)
            | _ \<Rightarrow> (Raise TypeError, lg)))"

text \<open>
  The loop of \<^verbatim>\<open>set_logging_level_for_loggers\<close>: a list entry is a logger name and a level
  name, a string entry is a logger name, and an entry of any other type is skipped.
\<close>

fun set_levels_loop :: "pyval list \<Rightarrow> int \<Rightarrow> logging \<Rightarrow> unit res \<times> logging" where
  "set_levels_loop [] level lg = (Ok (), lg)"
| "set_levels_loop (logger # rest) level lg =
     then_do
       (case logger of
          PList l \<Rightarrow>
            (if length l < 2 then (Raise IndexError, lg)
             else (case LEVELS_get (l ! 1) of
                     Raise e \<Rightarrow> (Raise e, lg)
                   | Ok level' \<Rightarrow> set_logger_level (l ! 0) level' lg))
        | PStr name \<Rightarrow> set_logger_level (PStr name) level lg
        | _ \<Rightarrow> (Ok (), lg))
       (\<lambda>_ lg. set_levels_loop rest level lg)"

text \<open>
  \<^verbatim>\<open>set_logging_level_for_loggers(loggers, level)\<close>. Iterating over a string gives its
  characters, over a dictionary its keys; a number that is not zero cannot be iterated.
\<close>

definition set_logging_level_for_loggers :: "pyval \<Rightarrow> int \<Rightarrow> logging \<Rightarrow> unit res \<times> logging" where
  "set_logging_level_for_loggers loggers level lg =
     (if \<not> truthy_val loggers then (Ok (), lg)
      else (case loggers of
              PList l \<Rightarrow> set_levels_loop l level lg
            | PStr str \<Rightarrow> set_levels_loop (map (\<lambda>c. PStr [c]) str) level lg
            | PDict d \<Rightarrow> set_levels_loop (map (\<lambda>(k, v). PStr k) d) level lg
            | _ \<Rightarrow> (Raise TypeError, lg)))"

text \<open>\<^verbatim>\<open>logging.handlers.SysLogHandler.facility_names\<close> of Python 2.7.\<close>

definition facility_names :: "pyval \<Rightarrow> int option" where
  "facility_names =
     [PStr ''auth'' \<mapsto> 4, PStr ''authpriv'' \<mapsto> 10, PStr ''cron'' \<mapsto> 9, PStr ''daemon'' \<mapsto> 3,
      PStr ''ftp'' \<mapsto> 11, PStr ''kern'' \<mapsto> 0, PStr ''lpr'' \<mapsto> 6, PStr ''mail'' \<mapsto> 2,
      PStr ''news'' \<mapsto> 7, PStr ''security'' \<mapsto> 4, PStr ''syslog'' \<mapsto> 5, PStr ''user'' \<mapsto> 1,
      PStr ''uucp'' \<mapsto> 8, PStr ''local0'' \<mapsto> 16, PStr ''local1'' \<mapsto> 17,
      PStr ''local2'' \<mapsto> 18, PStr ''local3'' \<mapsto> 19, PStr ''local4'' \<mapsto> 20,
      PStr ''local5'' \<mapsto> 21, PStr ''local6'' \<mapsto> 22, PStr ''local7'' \<mapsto> 23]"

definition is_stream_handler :: "handler \<Rightarrow> bool" where
  "is_stream_handler h = (case h of SysLogHandler _ _ \<Rightarrow> False | _ \<Rightarrow> True)"

definition new_syslog_handler :: "pyval \<Rightarrow> int \<Rightarrow> logging \<Rightarrow> handler res \<times> logging" where
  "new_syslog_handler address facility lg =
     (if syslog_reachable lg address then (Ok (SysLogHandler address facility), lg)
      else (Raise SocketError, lg))"

text \<open>
  \<^verbatim>\<open>Logger.isEnabledFor(level)\<close> on the root logger: false when \<^verbatim>\<open>manager.disable\<close> is at
  least \<open>level\<close>, otherwise whether \<open>level\<close> reaches the logger's effective level, which
  for the root logger is its own level.
\<close>

definition root_isEnabledFor :: "int \<Rightarrow> logging \<Rightarrow> bool" where
  "root_isEnabledFor level lg =
     (if manager_disable lg \<ge> level then False else level \<ge> root_level lg)"

text \<open>
  The module-level \<^verbatim>\<open>logging.error(msg, *args)\<close>: it calls \<^verbatim>\<open>basicConfig()\<close> first when
  the root logger has no handler, then calls \<^verbatim>\<open>root.error\<close>, which makes a record only if
  the root logger is enabled for \<^verbatim>\<open>ERROR\<close>.
\<close>

definition logging_error :: "string \<Rightarrow> logarg list \<Rightarrow> logging \<Rightarrow> unit res \<times> logging" where
  "logging_error msg args lg0 =
     then_do (if root_handlers lg0 = [] then basicConfig Map.empty lg0 else (Ok (), lg0))
       (\<lambda>_ lg. (Ok (), if root_isEnabledFor ERROR lg
                       then lg\<lparr>emitted := emitted lg @ [LogRec ''root'' ERROR msg args]\<rparr>
                       else lg))"

text \<open>Lines 253 to 275 of \<^verbatim>\<open>setup_logging\<close>, the handler named by the configuration.\<close>

definition setup_handler ::
  "config \<Rightarrow> bool \<Rightarrow> handler option \<Rightarrow> logging \<Rightarrow> unit res \<times> logging" where
  "setup_handler config debug stream_handler lg =
     (case config ''handler'' of
        None \<Rightarrow> (Ok (), lg)
      | Some h \<Rightarrow>
          if h = PStr ''syslog'' then
            (case config ''syslog'' of
               None \<Rightarrow> (Raise (KeyError (PStr ''syslog'')), lg)
             | Some sl \<Rightarrow>
                 (case getitem sl ''facility'' of
                    Raise e \<Rightarrow> (Raise e, lg)
                  | Ok facility \<Rightarrow>
                      if \<not> hashable facility then (Raise TypeError, lg)
                      else (case facility_names facility of
                              Some facility' \<Rightarrow>
                                (case getitem sl ''address'' of
                                   Raise e \<Rightarrow> (Raise e, lg)
                                 | Ok address \<Rightarrow>
                                     then_do (new_syslog_handler address facility' lg)
                                       (\<lambda>syslog lg.
                                          (let lg' = lg\<lparr>root_handlers := root_handlers lg @ [syslog]\<rparr>
                                           in (Ok (),
                                               (case stream_handler of
                                                  Some sh \<Rightarrow>
                                                    if \<not> debug
                                                    then lg'\<lparr>root_handlers := remove1 sh (root_handlers lg')\<rparr>
                                                    else lg'
                                                | None \<Rightarrow> lg')))))
                            | None \<Rightarrow>
                                logging_error ''%s:Invalid facility, syslog logging aborted''
                                  [AStr (application_name (sys_argv0 lg))] lg)))
          else (Ok (), lg))"

text \<open>
  \<^verbatim>\<open>setup_logging(config, debug=False)\<close>. The result holds the caller's dictionary as the
  call leaves it, also when the call raises.
\<close>

definition setup_logging :: "config \<Rightarrow> bool \<Rightarrow> logging \<Rightarrow> unit res \<times> config \<times> logging" where
  "setup_logging config0 debug lg0 =
     (let config1 = (if debug then (config0(''level'' \<mapsto> PStr ''debug''))(''filename'' := None)
                     else config0)
      in case config1 ''level'' of
           None \<Rightarrow> (Raise (KeyError (PStr ''level'')), config1, lg0)
         | Some lv \<Rightarrow>
             (case LEVELS_get lv of
                Raise e \<Rightarrow> (Raise e, config1, lg0)
              | Ok level \<Rightarrow>
                  (let config = config1(''level'' \<mapsto> PInt level);
                       (r, lg) =
                         then_do (basicConfig config lg0) (\<lambda>_ lg.
                         then_do (set_logging_level_for_loggers
                                    (kwargs_get config ''loggers'' PNone) level lg) (\<lambda>_ lg.
                         setup_handler config debug (find is_stream_handler (root_handlers lg)) lg))
                   in (r, config, lg))))"

text \<open>
  The \<^verbatim>\<open>logging\<close> package as it is after import: no handler on the root logger, whose
  level is \<^verbatim>\<open>WARNING\<close>, and no level disabled. The two configurations are those of the scenarios.
\<close>

definition logging0 :: logging where
  "logging0 = \<lparr>root_handlers = [], root_level = WARNING, manager_disable = 0,
               logger_levels = Map.empty,
               emitted = [], basic_config_args = [], openable = (\<lambda>_. True),
               syslog_reachable = (\<lambda>_. True), sys_argv0 = ''/usr/bin/rejected''\<rparr>"

definition config_debug :: config where
  "config_debug = [''level'' \<mapsto> PStr ''warning'', ''filename'' \<mapsto> PStr ''/var/log/app.log'',
                   ''format'' \<mapsto> PStr ''%(message)s'']"

definition config_syslog :: config where
  "config_syslog = [''handler'' \<mapsto> PStr ''syslog'',
                    ''syslog'' \<mapsto> PDict [(''address'', PStr ''/dev/log''),
                                         (''facility'', PStr ''not-a-real-facility'')]]"

section \<open>Properties of the signal dispatcher\<close>

lemma SIGNALS_SIGTERM: "SIGNALS SIGTERM = Some ''SIGTERM''"
  by (simp add: SIGNALS_def SIGTERM_def SIGHUP_def SIGUSR1_def)

lemma sig_distinct:
  "SIGTERM \<noteq> SIGHUP" "SIGTERM \<noteq> SIGUSR1" "SIGHUP \<noteq> SIGUSR1"
  "SIGHUP \<noteq> SIGTERM" "SIGUSR1 \<noteq> SIGTERM" "SIGUSR1 \<noteq> SIGHUP"
  by (simp_all add: SIGTERM_def SIGHUP_def SIGUSR1_def)

lemma SIGNALS_None:
  "signum \<noteq> SIGTERM \<Longrightarrow> signum \<noteq> SIGHUP \<Longrightarrow> signum \<noteq> SIGUSR1 \<Longrightarrow> SIGNALS signum = None"
  by (simp add: SIGNALS_def)

text \<open>
  Claim C2. When no shutdown callback is registered, \<^verbatim>\<open>signal_handler\<close> called with
  \<^verbatim>\<open>SIGTERM\<close> returns normally, and the state after it is the state before it with two
  log records added: the record of the received signal and the record that no handler is
  defined. No callback is called and no handler slot changes.
\<close>

theorem sigterm_without_shutdown_handler_only_logs:
  assumes "SHUTDOWN_HANDLER s = None"
  shows "signal_handler SIGTERM frame s =
           (Ok (), s\<lparr>logged := logged s @
              [LogRec LOGGER INFO ''Signal received: %s, %r'' [AStr ''SIGTERM'', ARepr frame],
               LogRec LOGGER INFO ''No valid signal handler defined: %s'' [AStr ''SIGTERM'']]\<rparr>)"
  using assms
  by (simp add: signal_handler_def SIGNALS_SIGTERM log_call_def Let_def sig_distinct)

theorem sigterm_without_shutdown_handler_witness:
  "SHUTDOWN_HANDLER (module_init (\<lambda>_. True) []) = None \<and>
   signal_handler SIGTERM ''frame'' (module_init (\<lambda>_. True) []) =
     (Ok (), (module_init (\<lambda>_. True) [])\<lparr>logged :=
        [LogRec LOGGER INFO ''Signal received: %s, %r'' [AStr ''SIGTERM'', ARepr ''frame''],
         LogRec LOGGER INFO ''No valid signal handler defined: %s'' [AStr ''SIGTERM'']]\<rparr>)"
  using sigterm_without_shutdown_handler_only_logs [of "module_init (\<lambda>_. True) []" "''frame''"]
  by (simp add: module_init_def)

text \<open>
  Claim C3. After \<^verbatim>\<open>shutdown_handler(a)\<close> and then \<^verbatim>\<open>shutdown_handler(b)\<close>, for any two
  callbacks, the shutdown slot holds \<open>b\<close>, and a delivery of \<^verbatim>\<open>SIGTERM\<close> adds exactly one
  call to the calls made so far: the call of \<open>b\<close>.
\<close>

theorem shutdown_handler_last_writer_wins:
  "SHUTDOWN_HANDLER (shutdown_handler (Some b) (shutdown_handler (Some a) s)) = Some b \<and>
   invoked (snd (signal_handler SIGTERM frame
                   (shutdown_handler (Some b) (shutdown_handler (Some a) s))))
     = invoked s @ [b]"
  by (simp add: signal_handler_def shutdown_handler_def call_handler_def SIGNALS_SIGTERM
        log_call_def Let_def)

text \<open>
  Claim C6. The claim does not hold of the code: for a signal number that is none of the
  three in \<^verbatim>\<open>_SIGNALS\<close>, here \<^verbatim>\<open>SIGINT\<close> (2), the lookup \<^verbatim>\<open>_SIGNALS[signum]\<close> in the first
  statement of \<^verbatim>\<open>signal_handler\<close> raises \<^verbatim>\<open>KeyError\<close>. The exception leaves the handler,
  and nothing has been logged.
\<close>

theorem unsupported_signal_raises_KeyError:
  "signal_handler 2 ''frame'' (module_init (\<lambda>_. False) []) =
     (Raise (KeyError (PInt 2)), module_init (\<lambda>_. False) [])"
  by (simp add: signal_handler_def SIGNALS_def SIGTERM_def SIGHUP_def SIGUSR1_def)

lemma unsupported_signal_always_raises:
  "signum \<noteq> SIGTERM \<Longrightarrow> signum \<noteq> SIGHUP \<Longrightarrow> signum \<noteq> SIGUSR1 \<Longrightarrow>
   signal_handler signum frame s = (Raise (KeyError (PInt signum)), s)"
  by (simp add: signal_handler_def SIGNALS_None)

section \<open>Decimal strings and the default PID file path\<close>

lemma digit_val_digit_char: "digit_val (digit_char d) = d mod 10"
proof -
  define k where "k = d mod 10"
  have "k < 10" by (simp add: k_def)
  then have "k = 0 \<or> k = 1 \<or> k = 2 \<or> k = 3 \<or> k = 4 \<or> k = 5 \<or> k = 6 \<or> k = 7 \<or> k = 8 \<or> k = 9"
    by arith
  then have "digit_val (''0123456789'' ! k) = k"
    unfolding digit_val_def by (elim disjE) simp_all
  then show ?thesis by (simp add: digit_char_def k_def)
qed

lemma digit_char_not_minus: "digit_char d \<noteq> CHR ''-''"
proof -
  have "digit_char d \<in> set ''0123456789''"
    unfolding digit_char_def by (rule nth_mem) simp
  then show ?thesis by auto
qed

lemma parse_nat_snoc: "parse_nat (ds @ [c]) = 10 * parse_nat ds + digit_val c"
  by (simp add: parse_nat_def)

lemma parse_nat_dec_nat: "parse_nat (dec_nat n) = n"
proof (induction n rule: dec_nat.induct)
  case (1 n)
  show ?case
  proof (cases "n < 10")
    case True
    then show ?thesis
      by (subst dec_nat.simps) (simp add: parse_nat_def digit_val_digit_char)
  next
    case False
    with 1 have "parse_nat (dec_nat (n div 10)) = n div 10" by simp
    with False show ?thesis
      by (subst dec_nat.simps) (simp add: parse_nat_snoc digit_val_digit_char)
  qed
qed

lemma dec_nat_hd: "\<exists>c cs. dec_nat n = c # cs \<and> c \<noteq> CHR ''-''"
proof (induction n rule: dec_nat.induct)
  case (1 n)
  show ?case
  proof (cases "n < 10")
    case True
    then show ?thesis by (subst dec_nat.simps) (simp add: digit_char_not_minus)
  next
    case False
    with 1 obtain c cs where "dec_nat (n div 10) = c # cs" "c \<noteq> CHR ''-''" by blast
    with False show ?thesis by (subst dec_nat.simps) simp
  qed
qed

lemma parse_int_fmt_i: "parse_int (fmt_i i) = i"
proof (cases "i < 0")
  case True
  then show ?thesis by (simp add: fmt_i_def parse_int_def parse_nat_dec_nat)
next
  case False
  obtain c cs where "dec_nat (nat i) = c # cs" "c \<noteq> CHR ''-''"
    using dec_nat_hd by blast
  with False show ?thesis
    using parse_nat_dec_nat [of "nat i"] by (simp add: fmt_i_def parse_int_def)
qed

lemma fmt_i_inj: "fmt_i i = fmt_i j \<Longrightarrow> i = j"
  using parse_int_fmt_i by metis

lemma digit_char_in: "digit_char d \<in> set ''0123456789''"
  unfolding digit_char_def by (rule nth_mem) simp

lemma digit_char_not_slash: "digit_char d \<noteq> CHR ''/''" "CHR ''/'' \<noteq> digit_char d"
  using digit_char_in [of d] by auto

lemma dec_nat_no_slash: "CHR ''/'' \<notin> set (dec_nat n)"
proof (induction n rule: dec_nat.induct)
  case (1 n)
  show ?case
  proof (cases "n < 10")
    case True
    then show ?thesis by (subst dec_nat.simps) (simp add: digit_char_not_slash)
  next
    case False
    with 1 show ?thesis by (subst dec_nat.simps) (simp add: digit_char_not_slash)
  qed
qed

lemma fmt_i_no_slash: "CHR ''/'' \<notin> set (fmt_i i)"
  by (simp add: fmt_i_def dec_nat_no_slash)

lemma split_on_no_sep: "sep \<notin> set w \<Longrightarrow> split_on sep w = [w]"
  by (induction w) auto

lemma path_split_tail_no_slash: "CHR ''/'' \<notin> set (path_split_tail p)"
proof -
  have "\<forall>c \<in> set (takeWhile (\<lambda>c. c \<noteq> CHR ''/'') (rev p)). c \<noteq> CHR ''/''"
    using set_takeWhileD by fastforce
  then show ?thesis by (auto simp: path_split_tail_def)
qed

lemma normpath_tmp:
  assumes "CHR ''/'' \<notin> set rest" and "rest \<noteq> []" and "rest \<noteq> ''.''" and "rest \<noteq> ''..''"
  shows "normpath (''/tmp/'' @ rest) = ''/tmp/'' @ rest"
  using assms by (simp add: normpath_def split_on_no_sep Let_def)

lemma normpath_default_pidfile:
  "normpath (''/tmp/'' @ application_name a @ ''-'' @ fmt_i i @ ''.pid'')
     = ''/tmp/'' @ application_name a @ ''-'' @ fmt_i i @ ''.pid''"
proof -
  let ?rest = "application_name a @ ''-'' @ fmt_i i @ ''.pid''"
  have 1: "CHR ''/'' \<notin> set ?rest"
    by (simp add: application_name_def path_split_tail_no_slash fmt_i_no_slash)
  have "length ?rest \<ge> 5" by simp
  then have 2: "?rest \<noteq> []" "?rest \<noteq> ''.''" "?rest \<noteq> ''..''"
    by (auto simp del: append_assoc)
  from normpath_tmp [OF 1 2] show ?thesis by simp
qed

lemma normpath_root: "normpath ''/'' = ''/''"
  by (simp add: normpath_def Let_def)

lemma fmt_i_102: "fmt_i 102 = ''102''"
  by (simp add: fmt_i_def dec_nat.simps digit_char_def)

lemma app_name_env0: "application_name (argv0 env0) = ''rejected''"
  by (simp add: env0_def application_name_def path_split_tail_def)

section \<open>Properties of the daemonizer\<close>

subsection \<open>Sequencing and the process state\<close>

lemma then_do_Ok: "then_do (Ok a, s) f = f a s"
  by (simp add: then_do_def)

lemma then_do_Raise: "then_do (Raise e, s) f = (Raise e, s)"
  by (simp add: then_do_def)

lemma then_do_if: "then_do (if c then x else y) f = (if c then then_do x f else then_do y f)"
  by simp

lemmas then_do_simps = then_do_Ok then_do_Raise then_do_if

lemmas os_defs = flush_def getpwnam_uid_def os_fork_def sys_exit_def open_w_def write_file_def
  fchown_def chdir_def umask_def setsid_def file_open_def dup2_def seteuid_def traced_def
  plog_call_def

lemmas run_defs = daemonize_def detach_def switch_user_def write_pidfile_def
  then_do_Ok then_do_Raise then_do_if flush_def getpwnam_uid_def
  os_fork_def sys_exit_def open_w_def write_file_def fchown_def chdir_def umask_def setsid_def
  file_open_def dup2_def seteuid_def Let_def truthy_def

lemma traced_sel:
  "proc_pid (traced c s) = proc_pid s" "proc_euid (traced c s) = proc_euid s"
  "proc_egid (traced c s) = proc_egid s" "proc_cwd (traced c s) = proc_cwd s"
  "proc_umask (traced c s) = proc_umask s" "session_leader (traced c s) = session_leader s"
  "std_fds (traced c s) = std_fds s" "files (traced c s) = files s"
  "plog (traced c s) = plog s" "trace (traced c s) = trace s @ [c]"
  by (simp_all add: traced_def)

lemma plog_call_sel:
  "proc_pid (plog_call n l f a s) = proc_pid s" "proc_euid (plog_call n l f a s) = proc_euid s"
  "proc_egid (plog_call n l f a s) = proc_egid s" "proc_cwd (plog_call n l f a s) = proc_cwd s"
  "proc_umask (plog_call n l f a s) = proc_umask s"
  "session_leader (plog_call n l f a s) = session_leader s"
  "std_fds (plog_call n l f a s) = std_fds s" "files (plog_call n l f a s) = files s"
  "plog (plog_call n l f a s) = plog s @ [LogRec n l f a]" "trace (plog_call n l f a s) = trace s"
  by (simp_all add: plog_call_def)

lemma then_do_post:
  "(case then_do m f of (Ok b, s') \<Rightarrow> (Ok b, h s') | (Raise e, s') \<Rightarrow> (Raise e, s'))
     = then_do m (\<lambda>a s. case f a s of (Ok b, s') \<Rightarrow> (Ok b, h s') | (Raise e, s') \<Rightarrow> (Raise e, s'))"
  by (simp add: then_do_def split: prod.splits res.splits)

lemma sys_exit_post:
  "(case sys_exit n s of (Ok b, s') \<Rightarrow> (Ok b, h s') | (Raise e, s') \<Rightarrow> (Raise e, s'))
     = sys_exit n s"
  by (simp add: sys_exit_def)

lemma if_post:
  "(case (if c then x else y) of (Ok b, s') \<Rightarrow> (Ok b, h s') | (Raise e, s') \<Rightarrow> (Raise e, s'))
     = (if c then (case x of (Ok b, s') \<Rightarrow> (Ok b, h s') | (Raise e, s') \<Rightarrow> (Raise e, s'))
        else (case y of (Ok b, s') \<Rightarrow> (Ok b, h s') | (Raise e, s') \<Rightarrow> (Raise e, s')))"
  by simp

subsection \<open>The PID file\<close>

lemma detach_keeps:
  assumes "detach env user uid s = (r, s')"
  shows "files s' = files s" and "proc_pid s' = proc_pid s"
proof -
  have "files (snd (detach env user uid s)) = files s \<and>
        proc_pid (snd (detach env user uid s)) = proc_pid s"
    by (simp add: detach_def switch_user_def then_do_simps os_defs Let_def)
  with assms show "files s' = files s" and "proc_pid s' = proc_pid s" by simp_all
qed

lemma survivor_run:
  assumes "fork1 env = InChild c" and "fork2 env = InChild g"
    and "daemonize env pidfile user s0 = (Ok True, s)"
  shows "proc_pid s = g" and "files s = files s0"
    and "\<not> fails env (SFlush ''stdout'')" and "\<not> fails env (SFlush ''stderr'')"
    and "SUPPORTS_PWD env \<and> truthy user \<longrightarrow> passwd env (the user) \<noteq> None"
  using assms
  by (auto simp: daemonize_def then_do_simps flush_def getpwnam_uid_def os_fork_def traced_def
        split: if_splits option.splits dest: detach_keeps)

lemma write_pidfile_content:
  assumes "\<not> fails env (SOpen path ''w'')" and "\<not> fails env (SWrite path (fmt_i p @ [CHR 0x0A]))"
  shows "\<exists>f. files (snd (write_pidfile env path p uid s)) path = Some f \<and>
             content f = fmt_i p @ [CHR 0x0A]"
  using assms
  by (simp add: write_pidfile_def then_do_simps open_w_def write_file_def fchown_def traced_def
        split: option.splits)

lemma intermediate_run:
  assumes f1: "fork1 env = InChild c" and f2: "fork2 env = InParent g" and gpos: "0 < g"
    and fl: "\<not> fails env (SFlush ''stdout'')" "\<not> fails env (SFlush ''stderr'')"
    and pw: "SUPPORTS_PWD env \<and> truthy user \<longrightarrow> passwd env (the user) \<noteq> None"
    and path: "path = (if truthy pidfile then the pidfile
                       else ''/tmp/'' @ application_name (argv0 env) @ ''-'' @ fmt_i g @ ''.pid'')"
    and op: "\<not> fails env (SOpen path ''w'')"
    and wr: "\<not> fails env (SWrite path (fmt_i g @ [CHR 0x0A]))"
  shows "\<exists>f. files (snd (daemonize env pidfile user s0)) path = Some f \<and>
             content f = fmt_i g @ [CHR 0x0A]"
proof -
  have "\<exists>uid s1. daemonize env pidfile user s0 =
           then_do (write_pidfile env path g uid s1) (\<lambda>_ s. sys_exit 0 s)"
  proof (cases "SUPPORTS_PWD env \<and> truthy user")
    case True
    with pw obtain u where "passwd env (the user) = Some u" by auto
    with True f1 f2 gpos fl show ?thesis
      unfolding path
      by (simp add: daemonize_def then_do_simps flush_def getpwnam_uid_def os_fork_def
            normpath_default_pidfile [simplified] Let_def) blast
  next
    case False
    with f1 f2 gpos fl show ?thesis
      unfolding path
      by (simp add: daemonize_def then_do_simps flush_def getpwnam_uid_def os_fork_def
            normpath_default_pidfile [simplified] Let_def) blast
  qed
  then obtain uid s1 where pre:
    "daemonize env pidfile user s0 =
       then_do (write_pidfile env path g uid s1) (\<lambda>_ s. sys_exit 0 s)"
    by blast
  obtain r s2 where w: "write_pidfile env path g uid s1 = (r, s2)"
    by (cases "write_pidfile env path g uid s1")
  from write_pidfile_content [OF op wr, of uid s1] w
  obtain f where "files s2 path = Some f" "content f = fmt_i g @ [CHR 0x0A]" by auto
  moreover have "snd (daemonize env pidfile user s0) = s2"
    using pre w by (cases r) (simp_all add: then_do_simps sys_exit_def)
  ultimately show ?thesis by simp
qed

text \<open>
  Claim C1, as amended. Take a call in which both \<^verbatim>\<open>fork\<close> calls succeed, the second one
  creating the process \<open>grandchild\<close>, and in which the intermediate process can open and
  write the PID file. If \<^verbatim>\<open>daemonize\<close> returns \<^verbatim>\<open>True\<close> in the surviving process, that
  process has the id \<open>grandchild\<close>, and the file at the resolved path (the \<^verbatim>\<open>pidfile\<close>
  argument when it is a non-empty string, otherwise
  \<^verbatim>\<open>/tmp/<application name>-<grandchild>.pid\<close>) holds the decimal digits of that id and a
  newline, which read back as the id; it does not hold the id of the intermediate process.
\<close>

theorem pidfile_holds_survivor_pid:
  assumes gpos: "0 < grandchild"
    and path: "path = (if truthy pidfile then the pidfile
                       else ''/tmp/'' @ application_name (argv0 env) @ ''-''
                              @ fmt_i grandchild @ ''.pid'')"
    and op: "\<not> fails env (SOpen path ''w'')"
    and wr: "\<not> fails env (SWrite path (fmt_i grandchild @ [CHR 0x0A]))"
    and run: "daemonize_tree env child grandchild pidfile user s0
                = (caller, intermediate, (Ok True, s))"
  shows "proc_pid s = grandchild \<and>
         (\<exists>f. files s path = Some f \<and> content f = fmt_i (proc_pid s) @ [CHR 0x0A] \<and>
              parse_int (take (length (content f) - 1) (content f)) = proc_pid s \<and>
              (child \<noteq> grandchild \<longrightarrow> content f \<noteq> fmt_i child @ [CHR 0x0A]))"
proof -
  let ?envM = "env\<lparr>fork1 := InChild child, fork2 := InParent grandchild\<rparr>"
  let ?envG = "env\<lparr>fork1 := InChild child, fork2 := InChild grandchild\<rparr>"
  let ?sM = "snd (daemonize ?envM pidfile user s0)"
  from run have g: "daemonize ?envG pidfile user (s0\<lparr>files := files ?sM\<rparr>) = (Ok True, s)"
    by (auto simp: daemonize_tree_def Let_def)
  have pid: "proc_pid s = grandchild" and fs: "files s = files ?sM"
    and fl: "\<not> fails env (SFlush ''stdout'')" "\<not> fails env (SFlush ''stderr'')"
    and pw: "SUPPORTS_PWD env \<and> truthy user \<longrightarrow> passwd env (the user) \<noteq> None"
    using survivor_run [OF _ _ g, of child grandchild] by simp_all
  have "\<exists>f. files ?sM path = Some f \<and> content f = fmt_i grandchild @ [CHR 0x0A]"
    by (rule intermediate_run [where c = child and g = grandchild])
       (use gpos fl pw path op wr in simp_all)
  then obtain f where f: "files s path = Some f" "content f = fmt_i grandchild @ [CHR 0x0A]"
    using fs by auto
  have "child \<noteq> grandchild \<longrightarrow> content f \<noteq> fmt_i child @ [CHR 0x0A]"
    using f(2) fmt_i_inj by auto
  with pid f show ?thesis by (simp add: parse_int_fmt_i)
qed

lemma survivor_env0:
  "fst (daemonize (env0\<lparr>fork1 := InChild 101, fork2 := InChild 102\<rparr>) None (Some ''daemon'')
          (proc0\<lparr>files := F\<rparr>)) = Ok True"
  by (simp add: run_defs env0_def traced_sel plog_call_sel proc0_def)

theorem pidfile_witness:
  "(0::int) < 102 \<and>
   \<not> fails env0 (SOpen ''/tmp/rejected-102.pid'' ''w'') \<and>
   \<not> fails env0 (SWrite ''/tmp/rejected-102.pid'' (fmt_i 102 @ [CHR 0x0A])) \<and>
   fst (snd (snd (daemonize_tree env0 101 102 None (Some ''daemon'') proc0))) = Ok True \<and>
   proc_pid (snd (snd (snd (daemonize_tree env0 101 102 None (Some ''daemon'') proc0)))) = 102 \<and>
   (\<exists>f. files (snd (snd (snd (daemonize_tree env0 101 102 None (Some ''daemon'') proc0))))
           ''/tmp/rejected-102.pid'' = Some f \<and>
        content f = ''102'' @ [CHR 0x0A] \<and>
        parse_int (take (length (content f) - 1) (content f)) = 102 \<and>
        content f \<noteq> fmt_i 101 @ [CHR 0x0A])"
proof -
  let ?T = "daemonize_tree env0 101 102 None (Some ''daemon'') proc0"
  have gpos: "(0::int) < 102" by simp
  have path: "''/tmp/rejected-102.pid'' =
                (if truthy None then the None
                 else ''/tmp/'' @ application_name (argv0 env0) @ ''-'' @ fmt_i 102 @ ''.pid'')"
    by (simp add: truthy_def app_name_env0 fmt_i_102)
  have op: "\<not> fails env0 (SOpen ''/tmp/rejected-102.pid'' ''w'')"
    and wr: "\<not> fails env0 (SWrite ''/tmp/rejected-102.pid'' (fmt_i 102 @ [CHR 0x0A]))"
    by (simp_all add: env0_def)
  have ok: "fst (snd (snd ?T)) = Ok True"
    by (simp add: daemonize_tree_def Let_def survivor_env0)
  have run: "?T = (fst ?T, fst (snd ?T), (Ok True, snd (snd (snd ?T))))"
    using ok by (metis prod.collapse)
  from pidfile_holds_survivor_pid [OF gpos path op wr run]
  obtain f where pid: "proc_pid (snd (snd (snd ?T))) = 102"
    and f: "files (snd (snd (snd ?T))) ''/tmp/rejected-102.pid'' = Some f"
      "content f = fmt_i (proc_pid (snd (snd (snd ?T)))) @ [CHR 0x0A]"
      "parse_int (take (length (content f) - 1) (content f)) = proc_pid (snd (snd (snd ?T)))"
      "content f \<noteq> fmt_i 101 @ [CHR 0x0A]"
    by auto
  from f pid have "files (snd (snd (snd ?T))) ''/tmp/rejected-102.pid'' = Some f \<and>
        content f = ''102'' @ [CHR 0x0A] \<and>
        parse_int (take (length (content f) - 1) (content f)) = 102 \<and>
        content f \<noteq> fmt_i 101 @ [CHR 0x0A]"
    by (simp add: fmt_i_102)
  then have "\<exists>f. files (snd (snd (snd ?T))) ''/tmp/rejected-102.pid'' = Some f \<and>
        content f = ''102'' @ [CHR 0x0A] \<and>
        parse_int (take (length (content f) - 1) (content f)) = 102 \<and>
        content f \<noteq> fmt_i 101 @ [CHR 0x0A]"
    by blast
  with gpos op wr ok pid show ?thesis by blast
qed

lemma survivor_env_unwritable:
  "fst (daemonize (env_unwritable\<lparr>fork1 := InChild 101, fork2 := InChild 102\<rparr>)
          (Some ''/nonexistent/rejected.pid'') None (proc0\<lparr>files := F\<rparr>)) = Ok True"
  "proc_pid (snd (daemonize (env_unwritable\<lparr>fork1 := InChild 101, fork2 := InChild 102\<rparr>)
          (Some ''/nonexistent/rejected.pid'') None (proc0\<lparr>files := F\<rparr>))) = 102"
  "files (snd (daemonize (env_unwritable\<lparr>fork1 := InChild 101, fork2 := InChild 102\<rparr>)
          (Some ''/nonexistent/rejected.pid'') None (proc0\<lparr>files := F\<rparr>))) = F"
  by (simp_all add: run_defs env_unwritable_def env0_def traced_sel plog_call_sel proc0_def)

lemma intermediate_env_unwritable:
  "fst (daemonize (env_unwritable\<lparr>fork1 := InChild 101, fork2 := InParent 102\<rparr>)
          (Some ''/nonexistent/rejected.pid'') None proc0) = Raise (IOError ''/nonexistent/rejected.pid'')"
  "files (snd (daemonize (env_unwritable\<lparr>fork1 := InChild 101, fork2 := InParent 102\<rparr>)
          (Some ''/nonexistent/rejected.pid'') None proc0)) ''/nonexistent/rejected.pid'' = None"
  by (simp_all add: run_defs env_unwritable_def env0_def traced_sel plog_call_sel proc0_def)

text \<open>
  The claim as it was stated fails where the intermediate process cannot open the PID file:
  its \<^verbatim>\<open>open\<close> raises \<^verbatim>\<open>IOError\<close>, while the surviving process, with the id 102, returns
  \<^verbatim>\<open>True\<close> all the same, and no file exists at the path.
\<close>

theorem pidfile_missing_counterexample:
  "fst (snd (snd (daemonize_tree env_unwritable 101 102 (Some ''/nonexistent/rejected.pid'') None
                    proc0))) = Ok True \<and>
   proc_pid (snd (snd (snd (daemonize_tree env_unwritable 101 102
                              (Some ''/nonexistent/rejected.pid'') None proc0)))) = 102 \<and>
   files (snd (snd (snd (daemonize_tree env_unwritable 101 102
                           (Some ''/nonexistent/rejected.pid'') None proc0))))
     ''/nonexistent/rejected.pid'' = None \<and>
   fst (fst (snd (daemonize_tree env_unwritable 101 102 (Some ''/nonexistent/rejected.pid'') None
                    proc0))) = Raise (IOError ''/nonexistent/rejected.pid'')"
  by (simp add: daemonize_tree_def Let_def survivor_env_unwritable intermediate_env_unwritable)

subsection \<open>An unknown user\<close>

text \<open>
  Claim C4. On a platform with the \<^verbatim>\<open>pwd\<close> module, when \<^verbatim>\<open>user\<close> is a non-empty name that
  the user database does not hold, \<^verbatim>\<open>daemonize\<close> raises the \<^verbatim>\<open>KeyError\<close> of
  \<^verbatim>\<open>pwd.getpwnam\<close> (the specification's unknown-user error). The process has then only
  flushed its two streams and asked for the user: it has not forked, and nothing else of
  its state has changed.
\<close>

theorem unknown_user_aborts_before_fork:
  assumes "SUPPORTS_PWD env" and "user = Some u" and "u \<noteq> []" and "passwd env u = None"
    and "\<not> fails env (SFlush ''stdout'')" and "\<not> fails env (SFlush ''stderr'')"
  shows "daemonize env pidfile user s =
           (Raise (KeyError (PStr u)),
            s\<lparr>trace := trace s @ [SFlush ''stdout'', SFlush ''stderr'', SGetpwnam u]\<rparr>)"
  using assms
  by (simp add: daemonize_def then_do_simps flush_def getpwnam_uid_def traced_def truthy_def)

theorem unknown_user_witness:
  "SUPPORTS_PWD env0 \<and> ''nobody'' \<noteq> [] \<and> passwd env0 ''nobody'' = None \<and>
   \<not> fails env0 (SFlush ''stdout'') \<and> \<not> fails env0 (SFlush ''stderr'') \<and>
   daemonize env0 None (Some ''nobody'') proc0 =
     (Raise (KeyError (PStr ''nobody'')),
      proc0\<lparr>trace := [SFlush ''stdout'', SFlush ''stderr'', SGetpwnam ''nobody'']\<rparr>)"
  using unknown_user_aborts_before_fork [of env0 "Some ''nobody''" "''nobody''" None proc0]
  by (simp add: env0_def proc0_def)

subsection \<open>The switch of the effective uid\<close>

lemma switch_user_trace:
  "\<exists>ext. trace (snd (switch_user env user uid s)) = trace s @ ext \<and>
         (\<forall>u. SSeteuid u \<in> set ext \<longrightarrow> u = uid \<and> uid > - 1 \<and> uid \<noteq> proc_euid s)"
  by (simp add: switch_user_def seteuid_def traced_def plog_call_def Let_def)

lemma switch_user_trace_from:
  assumes "proc_euid s1 = proc_euid s" and "trace s1 = trace s @ pre"
    and "\<forall>u. SSeteuid u \<notin> set pre"
  shows "\<exists>ext. trace (snd (switch_user env user uid s1)) = trace s @ ext \<and>
           (\<forall>u. SSeteuid u \<in> set ext \<longrightarrow> u = uid \<and> uid > - 1 \<and> uid \<noteq> proc_euid s)"
proof -
  from switch_user_trace [of env user uid s1] obtain ext where
    e: "trace (snd (switch_user env user uid s1)) = trace s1 @ ext"
       "\<forall>u. SSeteuid u \<in> set ext \<longrightarrow> u = uid \<and> uid > - 1 \<and> uid \<noteq> proc_euid s1"
    by blast
  with assms show ?thesis
    by (intro exI [of _ "pre @ ext"]) auto
qed

lemma detach_trace:
  "\<exists>ext. trace (snd (detach env user uid s)) = trace s @ ext \<and>
         (\<forall>u. SSeteuid u \<in> set ext \<longrightarrow> u = uid \<and> uid > - 1 \<and> uid \<noteq> proc_euid s)"
  unfolding detach_def
  by (simp add: then_do_simps chdir_def umask_def setsid_def file_open_def dup2_def traced_def
        switch_user_trace_from)

lemma detach_mem:
  assumes "SSeteuid u \<in> set (trace (snd (detach env user uid s)))"
  shows "SSeteuid u \<in> set (trace s) \<or> (u = uid \<and> uid > - 1 \<and> uid \<noteq> proc_euid s)"
  using assms detach_trace [of env user uid s] by auto

lemma write_pidfile_mem:
  assumes "SSeteuid u \<in> set (trace (snd (then_do (write_pidfile env p g uid s) (\<lambda>_ s. sys_exit 0 s))))"
  shows "SSeteuid u \<in> set (trace s)"
  using assms
  by (simp add: write_pidfile_def then_do_simps open_w_def write_file_def fchown_def traced_def
        sys_exit_def split: if_splits)

lemma daemonize_seteuid_mem:
  assumes "SSeteuid u \<in> set (trace (snd (daemonize env pidfile user s)))"
    and "SSeteuid u \<notin> set (trace s)"
  shows "SUPPORTS_PWD env \<and> truthy user \<and> passwd env (the user) = Some u \<and> u > - 1 \<and>
         u \<noteq> proc_euid s"
proof -
  let ?s2 = "traced (SFlush ''stderr'') (traced (SFlush ''stdout'') s)"
  show ?thesis
  proof (cases "fails env (SFlush ''stdout'') \<or> fails env (SFlush ''stderr'')")
    case True
    with assms show ?thesis
      by (auto simp: daemonize_def then_do_simps flush_def traced_def split: if_splits)
  next
    case nofail: False
    show ?thesis
    proof (cases "SUPPORTS_PWD env \<and> truthy user")
      case True
      show ?thesis
      proof (cases "passwd env (the user)")
        case None
        with True nofail assms show ?thesis
          by (simp add: daemonize_def then_do_simps flush_def getpwnam_uid_def traced_def)
      next
        case (Some uid)
        with True nofail assms show ?thesis
          by (cases "fork1 env"; cases "fork2 env")
             (auto simp: daemonize_def then_do_simps flush_def getpwnam_uid_def os_fork_def
                traced_def sys_exit_def split: if_splits
                dest!: detach_mem write_pidfile_mem)
      qed
    next
      case False
      with nofail assms show ?thesis
        by (cases "fork1 env"; cases "fork2 env")
           (auto simp: daemonize_def then_do_simps flush_def os_fork_def
              traced_def sys_exit_def split: if_splits
              dest!: detach_mem write_pidfile_mem)
    qed
  qed
qed

lemma daemonize_survivor_prefix:
  assumes f1: "fork1 env = InChild child" and f2: "fork2 env = InChild grandchild"
    and pw: "SUPPORTS_PWD env" "truthy user" "passwd env (the user) = Some uid"
    and fe: "\<And>c. fails env c = (c = SSeteuid uid)"
  shows "daemonize env pidfile user s =
             detach env user uid
               ((traced SFork ((traced SFork (traced (SGetpwnam (the user))
                   (traced (SFlush ''stderr'') (traced (SFlush ''stdout'') s))))
                     \<lparr>proc_pid := child\<rparr>))\<lparr>proc_pid := grandchild\<rparr>)"
    using f1 f2 pw
    by (simp add: daemonize_def then_do_simps flush_def getpwnam_uid_def os_fork_def fe)

lemma detach_all_ok:
  assumes fe: "\<And>c. fails env c = (c = SSeteuid uid)"
  shows "detach env user uid s =
           switch_user env user uid
             ((traced (SDup2 ''/dev/null'' 2)
               ((traced (SDup2 ''/dev/null'' 1)
                 ((traced (SDup2 ''/dev/null'' 0)
                   (traced (SOpen ''/dev/null'' ''a+'')
                     (traced (SOpen ''/dev/null'' ''a+'')
                       (traced (SOpen ''/dev/null'' ''r'')
                         ((traced SSetsid
                           ((traced (SUmask 0)
                             ((traced (SChdir ''/'') s)\<lparr>proc_cwd := ''/''\<rparr>))
                               \<lparr>proc_umask := 0\<rparr>))\<lparr>session_leader := True\<rparr>)))))
                    \<lparr>std_fds := (std_fds s)[0 := ''/dev/null'']\<rparr>))
                  \<lparr>std_fds := (std_fds s)[0 := ''/dev/null'', 1 := ''/dev/null'']\<rparr>))
                \<lparr>std_fds := (std_fds s)[0 := ''/dev/null'', 1 := ''/dev/null'', 2 := ''/dev/null'']\<rparr>)"
  by (simp add: detach_def then_do_simps chdir_def umask_def setsid_def file_open_def dup2_def
        fe traced_sel normpath_def Let_def)

lemma switch_user_fails:
  assumes "truthy user" and "uid > - 1" and "uid \<noteq> proc_euid s" and "fails env (SSeteuid uid)"
  shows "switch_user env user uid s =
           (Ok True,
            plog_call LOGGER ERROR ''Could not set the user: %s'' [AStr ''seteuid'']
              (traced (SSeteuid uid)
                 (plog_call ''root'' INFO ''Changing the running user to %s'' [AStr (the user)] s)))"
  using assms by (simp add: switch_user_def seteuid_def plog_call_sel Let_def)

lemma daemonize_survivor_switch:
  assumes f1: "fork1 env = InChild child" and f2: "fork2 env = InChild grandchild"
    and pw: "SUPPORTS_PWD env" "truthy user" "passwd env (the user) = Some uid"
    and fe: "\<And>c. fails env c = (c = SSeteuid uid)"
  shows "\<exists>s2. daemonize env pidfile user s = switch_user env user uid s2 \<and> proc_euid s2 = proc_euid s"
  unfolding daemonize_survivor_prefix [OF f1 f2 pw fe] detach_all_ok [OF fe]
  by (intro exI conjI, rule refl) (simp add: traced_sel)

lemma seteuid_failure_survivor:
  assumes f1: "fork1 env = InChild child" and f2: "fork2 env = InChild grandchild"
    and pw: "SUPPORTS_PWD env" "truthy user" "passwd env (the user) = Some uid"
    and ne: "uid > - 1" "uid \<noteq> proc_euid s"
    and fl: "fails env (SSeteuid uid)" and only: "\<forall>call. fails env call \<longrightarrow> call = SSeteuid uid"
  shows "\<exists>s'. daemonize env pidfile user s = (Ok True, s') \<and> proc_euid s' = proc_euid s \<and>
              last (trace s') = SSeteuid uid \<and>
              last (plog s') = LogRec LOGGER ERROR ''Could not set the user: %s'' [AStr ''seteuid'']"
proof -
  have fe: "\<And>c. fails env c = (c = SSeteuid uid)"
    using fl only by blast
  from daemonize_survivor_switch [OF f1 f2 pw fe] obtain s2 where
    s2: "daemonize env pidfile user s = switch_user env user uid s2" "proc_euid s2 = proc_euid s"
    by blast
  have "switch_user env user uid s2 =
           (Ok True,
            plog_call LOGGER ERROR ''Could not set the user: %s'' [AStr ''seteuid'']
              (traced (SSeteuid uid)
                 (plog_call ''root'' INFO ''Changing the running user to %s'' [AStr (the user)] s2)))"
    by (rule switch_user_fails) (use pw ne fl s2 in simp_all)
  with s2 show ?thesis by (simp add: plog_call_sel traced_sel)
qed

text \<open>
  Claim C5. First part, for every run of \<^verbatim>\<open>daemonize\<close> in any of the three processes,
  started with an empty trace: \<^verbatim>\<open>os.seteuid(u)\<close> is called only if the platform has
  \<^verbatim>\<open>pwd\<close>, \<^verbatim>\<open>user\<close> is a non-empty name that the user database resolves to \<open>u\<close>, \<open>u\<close>
  is not negative, and \<open>u\<close> is not the effective uid the process had. Second part, in the
  surviving process, when the user resolves to such a \<open>uid\<close>, \<^verbatim>\<open>os.seteuid\<close> fails and
  every other call succeeds: \<^verbatim>\<open>daemonize\<close> returns \<^verbatim>\<open>True\<close>, the effective uid is the one
  the process had, the failed \<^verbatim>\<open>seteuid\<close> is the last call made, and the last log record
  is the error \<^verbatim>\<open>Could not set the user\<close>.
\<close>

theorem seteuid_best_effort:
  assumes "trace s = []"
  shows "(\<forall>u. SSeteuid u \<in> set (trace (snd (daemonize env pidfile user s))) \<longrightarrow>
            SUPPORTS_PWD env \<and> truthy user \<and> passwd env (the user) = Some u \<and>
            u > - 1 \<and> u \<noteq> proc_euid s) \<and>
         (fork1 env = InChild child \<and> fork2 env = InChild grandchild \<and>
          SUPPORTS_PWD env \<and> truthy user \<and> passwd env (the user) = Some uid \<and>
          uid > - 1 \<and> uid \<noteq> proc_euid s \<and>
          fails env (SSeteuid uid) \<and> (\<forall>call. fails env call \<longrightarrow> call = SSeteuid uid) \<longrightarrow>
            (\<exists>s'. daemonize env pidfile user s = (Ok True, s') \<and> proc_euid s' = proc_euid s \<and>
                  last (trace s') = SSeteuid uid \<and>
                  last (plog s') =
                    LogRec LOGGER ERROR ''Could not set the user: %s'' [AStr ''seteuid'']))"
proof (rule conjI)
  show "\<forall>u. SSeteuid u \<in> set (trace (snd (daemonize env pidfile user s))) \<longrightarrow>
            SUPPORTS_PWD env \<and> truthy user \<and> passwd env (the user) = Some u \<and>
            u > - 1 \<and> u \<noteq> proc_euid s"
    using daemonize_seteuid_mem [of _ env pidfile user s] assms by simp
next
  show "fork1 env = InChild child \<and> fork2 env = InChild grandchild \<and>
          SUPPORTS_PWD env \<and> truthy user \<and> passwd env (the user) = Some uid \<and>
          uid > - 1 \<and> uid \<noteq> proc_euid s \<and>
          fails env (SSeteuid uid) \<and> (\<forall>call. fails env call \<longrightarrow> call = SSeteuid uid) \<longrightarrow>
            (\<exists>s'. daemonize env pidfile user s = (Ok True, s') \<and> proc_euid s' = proc_euid s \<and>
                  last (trace s') = SSeteuid uid \<and>
                  last (plog s') =
                    LogRec LOGGER ERROR ''Could not set the user: %s'' [AStr ''seteuid''])"
    using seteuid_failure_survivor [of env child grandchild user uid s pidfile] by blast
qed

lemma env_unprivileged_fails: "fails env_unprivileged c = (c = SSeteuid 2)"
  by (simp add: env_unprivileged_def env0_def)

theorem seteuid_best_effort_witness:
  "trace proc0 = [] \<and> fork1 env_unprivileged = InChild 101 \<and> fork2 env_unprivileged = InChild 102 \<and>
   SUPPORTS_PWD env_unprivileged \<and> truthy (Some ''daemon'') \<and>
   passwd env_unprivileged ''daemon'' = Some 2 \<and> (2::int) > - 1 \<and> 2 \<noteq> proc_euid proc0 \<and>
   fails env_unprivileged (SSeteuid 2) \<and>
   (\<exists>s'. daemonize env_unprivileged None (Some ''daemon'') proc0 = (Ok True, s') \<and>
         proc_euid s' = 0 \<and> last (trace s') = SSeteuid 2 \<and>
         last (plog s') = LogRec LOGGER ERROR ''Could not set the user: %s'' [AStr ''seteuid''])"
proof -
  have h: "trace proc0 = []" by (simp add: proc0_def)
  have e: "fork1 env_unprivileged = InChild 101" "fork2 env_unprivileged = InChild 102"
    "SUPPORTS_PWD env_unprivileged" "passwd env_unprivileged ''daemon'' = Some 2"
    by (simp_all add: env_unprivileged_def env0_def)
  have t: "truthy (Some ''daemon'')" by (simp add: truthy_def)
  have p: "proc_euid proc0 = 0" by (simp add: proc0_def)
  have f: "fails env_unprivileged (SSeteuid 2)"
    and o: "\<forall>call. fails env_unprivileged call \<longrightarrow> call = SSeteuid 2"
    by (simp_all add: env_unprivileged_fails)
  have n: "(2::int) > - 1" "2 \<noteq> proc_euid proc0" by (simp_all add: p)
  note th = seteuid_best_effort [OF h, of env_unprivileged None "Some ''daemon''" 101 102 2,
                unfolded option.sel]
  have "\<exists>s'. daemonize env_unprivileged None (Some ''daemon'') proc0 = (Ok True, s') \<and>
         proc_euid s' = proc_euid proc0 \<and> last (trace s') = SSeteuid 2 \<and>
         last (plog s') = LogRec LOGGER ERROR ''Could not set the user: %s'' [AStr ''seteuid'']"
    using th e t n f o by blast
  then have b: "\<exists>s'. daemonize env_unprivileged None (Some ''daemon'') proc0 = (Ok True, s') \<and>
         proc_euid s' = 0 \<and> last (trace s') = SSeteuid 2 \<and>
         last (plog s') = LogRec LOGGER ERROR ''Could not set the user: %s'' [AStr ''seteuid'']"
    unfolding p .
  show ?thesis
    by (intro conjI h e t n f b)
qed

subsection \<open>A platform without a user database\<close>

lemma switch_user_unresolved:
  "switch_user env user (- 1) s =
     (Ok True, if truthy user
               then plog_call ''root'' INFO ''Changing the running user to %s'' [AStr (the user)] s
               else s)"
  by (simp add: switch_user_def Let_def)

lemma detach_user_ignored:
  "detach env user (- 1) s =
     (case detach env None (- 1) s of
        (Ok b, s') \<Rightarrow>
          (Ok b, if truthy user
                 then plog_call ''root'' INFO ''Changing the running user to %s'' [AStr (the user)] s'
                 else s')
      | (Raise e, s') \<Rightarrow> (Raise e, s'))"
  by (simp add: detach_def then_do_post switch_user_unresolved truthy_def [of None])

lemma user_untouched_refl: "user_untouched s s"
  by (simp add: user_untouched_def split: option.splits)

lemma user_untouched_trans:
  assumes a: "user_untouched s0 s1" and b: "user_untouched s1 s2"
  shows "user_untouched s0 s2"
proof -
  obtain c1 where c1: "trace s1 = trace s0 @ c1" "list_all (\<lambda>c. \<not> user_call c) c1"
    using a by (auto simp: user_untouched_def)
  obtain c2 where c2: "trace s2 = trace s1 @ c2" "list_all (\<lambda>c. \<not> user_call c) c2"
    using b by (auto simp: user_untouched_def)
  have t: "\<exists>calls. trace s2 = trace s0 @ calls \<and> list_all (\<lambda>c. \<not> user_call c) calls"
    using c1 c2 by (intro exI [of _ "c1 @ c2"]) simp
  have e: "proc_euid s1 = proc_euid s0" "proc_egid s1 = proc_egid s0"
    "proc_euid s2 = proc_euid s1" "proc_egid s2 = proc_egid s1"
    using a b by (simp_all add: user_untouched_def)
  have o1: "case files s0 path of
               Some f0 \<Rightarrow> (\<exists>f. files s1 path = Some f \<and> owner_uid f = owner_uid f0 \<and>
                                 owner_gid f = owner_gid f0)
             | None \<Rightarrow> (case files s1 path of
                          Some f \<Rightarrow> owner_uid f = proc_euid s0 \<and> owner_gid f = proc_egid s0
                        | None \<Rightarrow> True)" for path
    using a by (simp add: user_untouched_def)
  have o2: "case files s1 path of
               Some f0 \<Rightarrow> (\<exists>f. files s2 path = Some f \<and> owner_uid f = owner_uid f0 \<and>
                                 owner_gid f = owner_gid f0)
             | None \<Rightarrow> (case files s2 path of
                          Some f \<Rightarrow> owner_uid f = proc_euid s1 \<and> owner_gid f = proc_egid s1
                        | None \<Rightarrow> True)" for path
    using b by (simp add: user_untouched_def)
  have o: "case files s0 path of
               Some f0 \<Rightarrow> (\<exists>f. files s2 path = Some f \<and> owner_uid f = owner_uid f0 \<and>
                                 owner_gid f = owner_gid f0)
             | None \<Rightarrow> (case files s2 path of
                          Some f \<Rightarrow> owner_uid f = proc_euid s0 \<and> owner_gid f = proc_egid s0
                        | None \<Rightarrow> True)" for path
    using o1 [of path] o2 [of path] e
    by (cases "files s0 path"; cases "files s1 path"; cases "files s2 path") auto
  show ?thesis
    unfolding user_untouched_def using t e o by simp
qed

lemma ignores_user_then_do:
  assumes m: "ignores_user s0 m"
    and f: "\<And>a s. ignores_user s (f a s)"
  shows "ignores_user s0 (then_do m f)"
proof (cases m)
  case (Pair r s1)
  show ?thesis
  proof (cases r)
    case (Raise e)
    with Pair m show ?thesis by (simp add: then_do_Raise ignores_user_def)
  next
    case (Ok a)
    have u1: "user_untouched s0 s1" using m Pair by (simp add: ignores_user_def)
    have u2: "user_untouched s1 (snd (f a s1))"
      and k: "case fst (f a s1) of Raise (KeyError _) \<Rightarrow> False | _ \<Rightarrow> True"
      using f [of s1 a] by (simp_all add: ignores_user_def)
    have "user_untouched s0 (snd (f a s1))" using u1 u2 by (rule user_untouched_trans)
    with k show ?thesis
      unfolding Pair Ok then_do_Ok ignores_user_def by simp
  qed
qed

lemma ignores_user_if:
  "ignores_user s0 x \<Longrightarrow> ignores_user s0 y \<Longrightarrow> ignores_user s0 (if c then x else y)"
  by simp

lemma ignores_user_traced:
  assumes "\<not> user_call c" and "case r of Raise (KeyError _) \<Rightarrow> False | _ \<Rightarrow> True"
    and "proc_euid s' = proc_euid s" "proc_egid s' = proc_egid s"
    and "files s' = files s" and "trace s' = trace s @ [c]"
  shows "ignores_user s (r, s')"
  using assms by (simp add: ignores_user_def user_untouched_def split: option.splits)

lemma ignores_user_prims:
  "ignores_user s (flush env stream s)"
  "ignores_user s (os_fork answer s)"
  "ignores_user s (chdir env path s)"
  "ignores_user s (umask env new_mask s)"
  "ignores_user s (setsid env s)"
  "ignores_user s (file_open env path mode s)"
  "ignores_user s (dup2 env src fd s)"
  by (auto simp: flush_def os_fork_def chdir_def umask_def setsid_def file_open_def dup2_def
        user_call_def traced_sel intro!: ignores_user_traced split: fork_answer.splits)

lemma ignores_user_sys_exit: "ignores_user s (sys_exit n s)"
  by (simp add: sys_exit_def ignores_user_def user_untouched_refl)

lemma ignores_user_open_w: "ignores_user s (open_w env path s)"
  by (auto simp: open_w_def ignores_user_def user_untouched_def traced_sel user_call_def
        split: option.splits)

lemma ignores_user_write_file: "ignores_user s (write_file env path data s)"
  by (auto simp: write_file_def ignores_user_def user_untouched_def traced_sel user_call_def
        split: option.splits)

lemma ignores_user_write_pidfile: "ignores_user s (write_pidfile env pidfile pid (- 1) s)"
  unfolding write_pidfile_def
  by (intro ignores_user_then_do ignores_user_open_w ignores_user_write_file)
     (simp add: ignores_user_def user_untouched_refl)

lemma ignores_user_switch_user: "ignores_user s (switch_user env user (- 1) s)"
  by (simp add: switch_user_def Let_def ignores_user_def user_untouched_def plog_call_sel
        split: option.splits)

lemma ignores_user_detach: "ignores_user s (detach env user (- 1) s)"
  unfolding detach_def
  by (intro ignores_user_then_do ignores_user_prims ignores_user_switch_user)

lemma ignores_user_daemonize:
  assumes "\<not> SUPPORTS_PWD env"
  shows "ignores_user s (daemonize env pidfile user s)"
proof -
  have u: "(if SUPPORTS_PWD env \<and> truthy user then getpwnam_uid env (the user) s'
            else (Ok (- 1), s')) = (Ok (- 1), s')" for s'
    using assms by simp
  show ?thesis
    unfolding daemonize_def u then_do_Ok Let_def
    by (intro ignores_user_then_do ignores_user_prims ignores_user_if
          ignores_user_sys_exit ignores_user_write_pidfile ignores_user_detach)
qed

text \<open>
  Claim C9, as amended. On a platform without the \<^verbatim>\<open>pwd\<close> module, \<^verbatim>\<open>daemonize\<close> called
  with a \<^verbatim>\<open>user\<close> does in every process what it does when called without one: same
  outcome, same calls, same files, same effective uid. The only difference is that the
  surviving process, when it returns, has called \<^verbatim>\<open>logging.info\<close> with
  \<^verbatim>\<open>Changing the running user to <user>\<close>. And the request is not carried out: the calls
  of the run are added to the trace, and none of them is \<^verbatim>\<open>pwd.getpwnam\<close>, \<^verbatim>\<open>os.fchown\<close> or
  \<^verbatim>\<open>os.seteuid\<close>; the effective uid is what it was; every file has the owner and group it
  had, or those of the process when the run created it; and the run does not end in a
  \<^verbatim>\<open>KeyError\<close>.
\<close>

theorem run_as_user_ignored_without_pwd:
  assumes "\<not> SUPPORTS_PWD env"
  shows "daemonize env pidfile user s =
     (case daemonize env pidfile None s of
        (Ok b, s') \<Rightarrow>
          (Ok b, if truthy user
                 then plog_call ''root'' INFO ''Changing the running user to %s'' [AStr (the user)] s'
                 else s')
      | (Raise e, s') \<Rightarrow> (Raise e, s')) \<and>
     take (length (trace s)) (trace (snd (daemonize env pidfile user s))) = trace s \<and>
     (\<forall>name. SGetpwnam name
        \<notin> set (drop (length (trace s)) (trace (snd (daemonize env pidfile user s))))) \<and>
     (\<forall>path uid gid. SFchown path uid gid
        \<notin> set (drop (length (trace s)) (trace (snd (daemonize env pidfile user s))))) \<and>
     (\<forall>uid. SSeteuid uid
        \<notin> set (drop (length (trace s)) (trace (snd (daemonize env pidfile user s))))) \<and>
     proc_euid (snd (daemonize env pidfile user s)) = proc_euid s \<and>
     (\<forall>path f. files (snd (daemonize env pidfile user s)) path = Some f \<longrightarrow>
        (case files s path of
           Some f0 \<Rightarrow> owner_uid f = owner_uid f0 \<and> owner_gid f = owner_gid f0
         | None \<Rightarrow> owner_uid f = proc_euid s \<and> owner_gid f = proc_egid s)) \<and>
     (\<forall>key. fst (daemonize env pidfile user s) \<noteq> Raise (KeyError key))"
proof -
  let ?r = "daemonize env pidfile user s"
  have eq: "?r =
     (case daemonize env pidfile None s of
        (Ok b, s') \<Rightarrow>
          (Ok b, if truthy user
                 then plog_call ''root'' INFO ''Changing the running user to %s'' [AStr (the user)] s'
                 else s')
      | (Raise e, s') \<Rightarrow> (Raise e, s'))"
    using assms
    by (simp add: daemonize_def then_do_post sys_exit_post if_post then_do_Ok Let_def
          detach_user_ignored [symmetric] truthy_def [of None] cong: if_cong)
  have i: "ignores_user s ?r"
    using assms by (rule ignores_user_daemonize)
  then have u: "user_untouched s (snd ?r)"
    and k: "case fst ?r of Raise (KeyError _) \<Rightarrow> False | _ \<Rightarrow> True"
    by (simp_all add: ignores_user_def)
  from u obtain calls where c: "trace (snd ?r) = trace s @ calls"
    "list_all (\<lambda>c. \<not> user_call c) calls"
    by (auto simp: user_untouched_def)
  have d: "drop (length (trace s)) (trace (snd ?r)) = calls"
    and t: "take (length (trace s)) (trace (snd ?r)) = trace s"
    using c(1) by simp_all
  have n: "c \<in> set calls \<Longrightarrow> \<not> user_call c" for c
    using c(2) by (simp add: list_all_iff)
  have g: "SGetpwnam name \<notin> set calls" for name
    using n [of "SGetpwnam name"] by (auto simp: user_call_def)
  have f: "SFchown path uid gid \<notin> set calls" for path uid gid
    using n [of "SFchown path uid gid"] by (auto simp: user_call_def)
  have e: "SSeteuid uid \<notin> set calls" for uid
    using n [of "SSeteuid uid"] by (auto simp: user_call_def)
  have p: "proc_euid (snd ?r) = proc_euid s"
    using u by (simp add: user_untouched_def)
  have o: "files (snd ?r) path = Some f \<Longrightarrow>
        (case files s path of
           Some f0 \<Rightarrow> owner_uid f = owner_uid f0 \<and> owner_gid f = owner_gid f0
         | None \<Rightarrow> owner_uid f = proc_euid s \<and> owner_gid f = proc_egid s)" for path f
  proof -
    assume a: "files (snd ?r) path = Some f"
    have "case files s path of
                 Some f0 \<Rightarrow> (\<exists>f. files (snd ?r) path = Some f \<and> owner_uid f = owner_uid f0 \<and>
                                   owner_gid f = owner_gid f0)
               | None \<Rightarrow> (case files (snd ?r) path of
                            Some f \<Rightarrow> owner_uid f = proc_euid s \<and> owner_gid f = proc_egid s
                          | None \<Rightarrow> True)"
      using u by (simp add: user_untouched_def)
    with a show ?thesis by (cases "files s path") auto
  qed
  have x: "fst ?r \<noteq> Raise (KeyError key)" for key
    using k by (cases "fst ?r") auto
  show ?thesis
    unfolding d
    using eq t g f e p o x by blast
qed

theorem run_as_user_ignored_witness:
  "\<not> SUPPORTS_PWD (env_no_pwd\<lparr>fork2 := InParent 102\<rparr>) \<and>
   daemonize (env_no_pwd\<lparr>fork2 := InParent 102\<rparr>) None (Some ''nobody'') proc0 =
     daemonize (env_no_pwd\<lparr>fork2 := InParent 102\<rparr>) None None proc0 \<and>
   trace (snd (daemonize (env_no_pwd\<lparr>fork2 := InParent 102\<rparr>) None (Some ''nobody'') proc0)) =
     [SFlush ''stdout'', SFlush ''stderr'', SFork, SFork,
      SOpen ''/tmp/rejected-102.pid'' ''w'', SWrite ''/tmp/rejected-102.pid'' ''102\<newline>''] \<and>
   SGetpwnam ''nobody''
     \<notin> set (trace (snd (daemonize (env_no_pwd\<lparr>fork2 := InParent 102\<rparr>) None (Some ''nobody'') proc0))) \<and>
   SFchown ''/tmp/rejected-102.pid'' 65534 1
     \<notin> set (trace (snd (daemonize (env_no_pwd\<lparr>fork2 := InParent 102\<rparr>) None (Some ''nobody'') proc0))) \<and>
   SSeteuid 65534
     \<notin> set (trace (snd (daemonize (env_no_pwd\<lparr>fork2 := InParent 102\<rparr>) None (Some ''nobody'') proc0))) \<and>
   proc_euid (snd (daemonize (env_no_pwd\<lparr>fork2 := InParent 102\<rparr>) None (Some ''nobody'') proc0)) = 0 \<and>
   files (snd (daemonize (env_no_pwd\<lparr>fork2 := InParent 102\<rparr>) None (Some ''nobody'') proc0))
       ''/tmp/rejected-102.pid'' =
     Some \<lparr>content = ''102\<newline>'', owner_uid = 0, owner_gid = 0\<rparr> \<and>
   fst (daemonize (env_no_pwd\<lparr>fork2 := InParent 102\<rparr>) None (Some ''nobody'') proc0)
     \<noteq> Raise (KeyError (PStr ''nobody''))"
proof -
  let ?e = "env_no_pwd\<lparr>fork2 := InParent 102\<rparr>"
  let ?r = "daemonize ?e None (Some ''nobody'') proc0"
  have h: "\<not> SUPPORTS_PWD ?e"
    by (simp add: env_no_pwd_def env0_def)
  note th = run_as_user_ignored_without_pwd [OF h, of None "Some ''nobody''" proc0]
  have z: "trace proc0 = []" "proc_euid proc0 = 0" "files proc0 = Map.empty"
    by (simp_all add: proc0_def)
  have dz: "drop (length (trace proc0)) calls = calls" for calls :: "syscall list"
    by (simp add: z)
  have ex: "\<exists>s'. daemonize ?e None None proc0 = (Raise (SystemExit 0), s')"
    by (simp add: run_defs env_no_pwd_def env0_def)
  have 1: "?r = daemonize ?e None None proc0"
    using th ex by auto
  have 2: "trace (snd ?r) =
     [SFlush ''stdout'', SFlush ''stderr'', SFork, SFork,
      SOpen ''/tmp/rejected-102.pid'' ''w'', SWrite ''/tmp/rejected-102.pid'' ''102\<newline>'']"
    and 3: "files (snd ?r) ''/tmp/rejected-102.pid'' =
     Some \<lparr>content = ''102\<newline>'', owner_uid = 0, owner_gid = 0\<rparr>"
    by (simp_all add: run_defs env_no_pwd_def env0_def traced_sel normpath_def proc0_def fmt_i_102
          application_name_def path_split_tail_def)
  have 4: "SGetpwnam ''nobody'' \<notin> set (trace (snd ?r))"
    "SFchown ''/tmp/rejected-102.pid'' 65534 1 \<notin> set (trace (snd ?r))"
    "SSeteuid 65534 \<notin> set (trace (snd ?r))"
    "proc_euid (snd ?r) = 0"
    "fst ?r \<noteq> Raise (KeyError (PStr ''nobody''))"
    using th unfolding dz z(2) by blast+
  from h 1 2 3 4 show ?thesis by blast
qed

text \<open>
  The claim as it was stated fails on the machine without \<^verbatim>\<open>pwd\<close>: asked to run as
  \<^verbatim>\<open>nobody\<close>, the surviving process returns \<^verbatim>\<open>True\<close> with its effective uid unchanged,
  having made no call for the user, and its only log record announces the change of user.
\<close>

theorem no_pwd_counterexample:
  "fst (daemonize env_no_pwd None (Some ''nobody'') proc0) = Ok True \<and>
   proc_euid (snd (daemonize env_no_pwd None (Some ''nobody'') proc0)) = proc_euid proc0 \<and>
   trace (snd (daemonize env_no_pwd None (Some ''nobody'') proc0)) =
     [SFlush ''stdout'', SFlush ''stderr'', SFork, SFork, SChdir ''/'', SUmask 0, SSetsid,
      SOpen ''/dev/null'' ''r'', SOpen ''/dev/null'' ''a+'', SOpen ''/dev/null'' ''a+'',
      SDup2 ''/dev/null'' 0, SDup2 ''/dev/null'' 1, SDup2 ''/dev/null'' 2] \<and>
   plog (snd (daemonize env_no_pwd None (Some ''nobody'') proc0)) =
     [LogRec ''root'' INFO ''Changing the running user to %s'' [AStr ''nobody'']]"
  by (simp add: run_defs env_no_pwd_def env0_def traced_sel plog_call_sel normpath_def proc0_def)

section \<open>Properties of the logging backend builder\<close>

lemma LEVELS_debug: "LEVELS_get (PStr ''debug'') = Ok DEBUG"
  by (simp add: LEVELS_get_def hashable_def LEVELS_def)

lemma set_logger_level_false_name:
  "\<not> truthy_val name \<Longrightarrow> set_logger_level name level lg = (Ok (), lg\<lparr>root_level := level\<rparr>)"
  by (simp add: set_logger_level_def)

lemma set_logger_level_named:
  "name \<noteq> [] \<Longrightarrow>
     set_logger_level (PStr name) level lg =
       (Ok (), lg\<lparr>logger_levels := (logger_levels lg)(name \<mapsto> level)\<rparr>)"
  by (simp add: set_logger_level_def truthy_val_def)

text \<open>
  Claim C7, as amended. For the configuration of the scenario and \<^verbatim>\<open>debug=True\<close>, whatever
  the state of the \<^verbatim>\<open>logging\<close> package, \<^verbatim>\<open>logging.basicConfig\<close> is called once, with the
  scenario's configuration in which \<^verbatim>\<open>filename\<close> is absent and \<^verbatim>\<open>level\<close> is the number
  \<^verbatim>\<open>logging.DEBUG\<close>, that is 10: the level string has been replaced by its number before
  the call.
\<close>

theorem debug_override_effective_config:
  "basic_config_args (snd (snd (setup_logging config_debug True lg))) =
     basic_config_args lg @ [config_debug(''filename'' := None, ''level'' \<mapsto> PInt DEBUG)] \<and>
   (config_debug(''filename'' := None, ''level'' \<mapsto> PInt DEBUG)) ''level'' = Some (PInt DEBUG) \<and>
   ''filename'' \<notin> dom (config_debug(''filename'' := None, ''level'' \<mapsto> PInt DEBUG))"
proof -
  let ?E = "config_debug(''filename'' := None, ''level'' \<mapsto> PInt DEBUG)"
  have E: "(config_debug(''level'' \<mapsto> PStr ''debug'', ''filename'' := None))(''level'' \<mapsto> PInt DEBUG) = ?E"
    by (rule ext) simp
  have nh: "?E ''handler'' = None" "?E ''loggers'' = None" "?E ''filename'' = None"
    "?E ''level'' = Some (PInt DEBUG)"
    by (simp_all add: config_debug_def)
  have bc: "\<exists>lg'. basicConfig ?E lg = (Ok (), lg') \<and>
                 basic_config_args lg' = basic_config_args lg @ [?E]"
    using nh
    by (simp add: basicConfig_def new_handler_def kwargs_get_def truthy_val_def root_setLevel_def
          then_do_Ok Let_def)
  then obtain lg' where lg': "basicConfig ?E lg = (Ok (), lg')"
    "basic_config_args lg' = basic_config_args lg @ [?E]" by blast
  have "setup_logging config_debug True lg = (Ok (), ?E, lg')"
    using lg' nh
    by (simp add: setup_logging_def LEVELS_debug E then_do_Ok set_logging_level_for_loggers_def
          kwargs_get_def truthy_val_def setup_handler_def Let_def)
  with lg' nh show ?thesis by simp
qed

text \<open>
  The claim as it was stated fails in the value of \<^verbatim>\<open>level\<close>: the configuration that
  reaches \<^verbatim>\<open>logging.basicConfig\<close> holds the integer 10 there, not the string \<^verbatim>\<open>debug\<close>.
\<close>

theorem debug_override_level_counterexample:
  "last (basic_config_args (snd (snd (setup_logging config_debug True logging0)))) ''level''
     = Some (PInt 10) \<and>
   last (basic_config_args (snd (snd (setup_logging config_debug True logging0)))) ''level''
     \<noteq> Some (PStr ''debug'')"
  by (simp add: setup_logging_def LEVELS_debug basicConfig_def new_handler_def kwargs_get_def
        truthy_val_def root_setLevel_def then_do_Ok set_logging_level_for_loggers_def
        setup_handler_def Let_def config_debug_def logging0_def DEBUG_def)

lemma not_a_facility: "facility_names (PStr ''not-a-real-facility'') = None"
  by (simp add: facility_names_def)

lemma basicConfig_stream:
  assumes "kwargs ''filename'' = None" and "kwargs ''level'' = Some (PInt n)"
  shows "basicConfig kwargs lg =
           (Ok (),
            if root_handlers lg = []
            then lg\<lparr>basic_config_args := basic_config_args lg @ [kwargs],
                    root_handlers := [StreamHandler (kwargs_get kwargs ''stream'' PNone)
                                        (kwargs_get kwargs ''format'' (PStr BASIC_FORMAT))
                                        (kwargs_get kwargs ''datefmt'' PNone)],
                    root_level := n\<rparr>
            else lg\<lparr>basic_config_args := basic_config_args lg @ [kwargs]\<rparr>)"
  using assms
  by (simp add: basicConfig_def new_handler_def kwargs_get_def truthy_val_def root_setLevel_def
        then_do_Ok Let_def)

text \<open>
  Claim C8, as amended. Take a configuration with the scenario's \<^verbatim>\<open>handler\<close> and \<^verbatim>\<open>syslog\<close>
  entries, no \<^verbatim>\<open>filename\<close> and no \<^verbatim>\<open>loggers\<close>, and either \<^verbatim>\<open>debug=True\<close> or a \<^verbatim>\<open>level\<close>
  entry that can be looked up. Then \<^verbatim>\<open>setup_logging\<close> returns normally, and the root
  logger's handlers are those \<^verbatim>\<open>logging.basicConfig\<close> left: the ones it had, or the one
  default stream handler when it had none, so that no syslog handler is added. Its level
  is the configured one when it had no handler, and the one it had otherwise. The call
  \<^verbatim>\<open>logging.error('%s:Invalid facility, syslog logging aborted', application_name())\<close>
  makes one record on the root logger, whose argument is the application name and not
  the facility, if that level admits \<^verbatim>\<open>ERROR\<close> and \<^verbatim>\<open>ERROR\<close> has not been disabled; it
  makes none otherwise, as for the level \<^verbatim>\<open>critical\<close> on a root logger without a handler.
\<close>

theorem invalid_facility_keeps_stream_handler:
  assumes h: "cfg ''handler'' = Some (PStr ''syslog'')"
    and sl: "cfg ''syslog'' = Some (PDict [(''address'', PStr ''/dev/log''),
                                            (''facility'', PStr ''not-a-real-facility'')])"
    and nf: "cfg ''filename'' = None" and nl: "cfg ''loggers'' = None"
    and lv: "debug \<or> (\<exists>v. cfg ''level'' = Some v \<and> hashable v)"
  shows "fst (setup_logging cfg debug lg) = Ok () \<and>
         root_handlers (snd (snd (setup_logging cfg debug lg))) =
           (if root_handlers lg = []
            then [StreamHandler (kwargs_get cfg ''stream'' PNone)
                    (kwargs_get cfg ''format'' (PStr BASIC_FORMAT))
                    (kwargs_get cfg ''datefmt'' PNone)]
            else root_handlers lg) \<and>
         root_level (snd (snd (setup_logging cfg debug lg))) =
           (if root_handlers lg = []
            then (case LEVELS (if debug then PStr ''debug'' else the (cfg ''level'')) of
                    None \<Rightarrow> NOTSET | Some level \<Rightarrow> level)
            else root_level lg) \<and>
         emitted (snd (snd (setup_logging cfg debug lg))) =
           emitted lg @
           (if manager_disable lg < ERROR \<and>
               root_level (snd (snd (setup_logging cfg debug lg))) \<le> ERROR
            then [LogRec ''root'' ERROR ''%s:Invalid facility, syslog logging aborted''
                    [AStr (application_name (sys_argv0 lg))]]
            else [])"
proof -
  define cfg1 where "cfg1 = (if debug then (cfg(''level'' \<mapsto> PStr ''debug''))(''filename'' := None)
                             else cfg)"
  define v where "v = (if debug then PStr ''debug'' else the (cfg ''level''))"
  have v: "cfg1 ''level'' = Some v" "hashable v"
  proof -
    show "cfg1 ''level'' = Some v"
      using lv by (auto simp: cfg1_def v_def)
    show "hashable v"
      using lv by (auto simp: v_def hashable_def)
  qed
  define n where "n = (case LEVELS v of None \<Rightarrow> NOTSET | Some l \<Rightarrow> l)"
  have lg: "LEVELS_get v = Ok n" using v by (simp add: LEVELS_get_def n_def)
  define E where "E = cfg1(''level'' \<mapsto> PInt n)"
  have E: "E ''handler'' = Some (PStr ''syslog'')"
    "E ''syslog'' = Some (PDict [(''address'', PStr ''/dev/log''),
                                  (''facility'', PStr ''not-a-real-facility'')])"
    "E ''filename'' = None" "E ''loggers'' = None" "E ''level'' = Some (PInt n)"
    "kwargs_get E ''stream'' PNone = kwargs_get cfg ''stream'' PNone"
    "kwargs_get E ''format'' (PStr BASIC_FORMAT) = kwargs_get cfg ''format'' (PStr BASIC_FORMAT)"
    "kwargs_get E ''datefmt'' PNone = kwargs_get cfg ''datefmt'' PNone"
    using h sl nf nl by (simp_all add: E_def cfg1_def kwargs_get_def)
  define lg1 where "lg1 = snd (basicConfig E lg)"
  have b: "basicConfig E lg = (Ok (), lg1)"
    and lg1: "root_handlers lg1 \<noteq> []" "emitted lg1 = emitted lg" "sys_argv0 lg1 = sys_argv0 lg"
      "manager_disable lg1 = manager_disable lg"
      "root_level lg1 = (if root_handlers lg = [] then n else root_level lg)"
      "root_handlers lg1 =
         (if root_handlers lg = []
          then [StreamHandler (kwargs_get cfg ''stream'' PNone)
                  (kwargs_get cfg ''format'' (PStr BASIC_FORMAT))
                  (kwargs_get cfg ''datefmt'' PNone)]
          else root_handlers lg)"
    unfolding lg1_def basicConfig_stream [OF E(3) E(5)] by (simp_all add: E)
  define rec where "rec = LogRec ''root'' ERROR ''%s:Invalid facility, syslog logging aborted''
                            [AStr (application_name (sys_argv0 lg1))]"
  have sh: "setup_handler E debug sh lg1 =
              (Ok (), if manager_disable lg1 < ERROR \<and> root_level lg1 \<le> ERROR
                      then lg1\<lparr>emitted := emitted lg1 @ [rec]\<rparr> else lg1)" for sh
    using E lg1(1)
    by (simp add: setup_handler_def getitem_def hashable_def not_a_facility logging_error_def
          root_isEnabledFor_def then_do_Ok rec_def)
  have "setup_logging cfg debug lg =
          (Ok (), E, if manager_disable lg1 < ERROR \<and> root_level lg1 \<le> ERROR
                     then lg1\<lparr>emitted := emitted lg1 @ [rec]\<rparr> else lg1)"
    using v lg b sh E(4)
    by (simp add: setup_logging_def cfg1_def [symmetric] E_def [symmetric] then_do_Ok
          set_logging_level_for_loggers_def kwargs_get_def truthy_val_def Let_def)
  then show ?thesis using lg1 by (simp add: rec_def n_def v_def)
qed

theorem invalid_facility_witness:
  "(config_syslog(''level'' \<mapsto> PStr ''info'')) ''handler'' = Some (PStr ''syslog'') \<and>
   (config_syslog(''level'' \<mapsto> PStr ''info'')) ''syslog'' =
      Some (PDict [(''address'', PStr ''/dev/log''), (''facility'', PStr ''not-a-real-facility'')]) \<and>
   (config_syslog(''level'' \<mapsto> PStr ''info'')) ''filename'' = None \<and>
   (config_syslog(''level'' \<mapsto> PStr ''info'')) ''loggers'' = None \<and>
   (config_syslog(''level'' \<mapsto> PStr ''info'')) ''level'' = Some (PStr ''info'') \<and>
   hashable (PStr ''info'') \<and>
   fst (setup_logging (config_syslog(''level'' \<mapsto> PStr ''info'')) False logging0) = Ok () \<and>
   root_handlers (snd (snd (setup_logging (config_syslog(''level'' \<mapsto> PStr ''info'')) False logging0))) =
     [StreamHandler PNone (PStr BASIC_FORMAT) PNone] \<and>
   root_level (snd (snd (setup_logging (config_syslog(''level'' \<mapsto> PStr ''info'')) False logging0))) = 20 \<and>
   emitted (snd (snd (setup_logging (config_syslog(''level'' \<mapsto> PStr ''info'')) False logging0))) =
     [LogRec ''root'' ERROR ''%s:Invalid facility, syslog logging aborted'' [AStr ''rejected'']] \<and>
   fst (setup_logging (config_syslog(''level'' \<mapsto> PStr ''critical'')) False logging0) = Ok () \<and>
   root_handlers (snd (snd (setup_logging (config_syslog(''level'' \<mapsto> PStr ''critical'')) False logging0))) =
     [StreamHandler PNone (PStr BASIC_FORMAT) PNone] \<and>
   root_level (snd (snd (setup_logging (config_syslog(''level'' \<mapsto> PStr ''critical'')) False logging0))) = 50 \<and>
   emitted (snd (snd (setup_logging (config_syslog(''level'' \<mapsto> PStr ''critical'')) False logging0))) = []"
proof -
  let ?c = "config_syslog(''level'' \<mapsto> PStr ''info'')"
  let ?d = "config_syslog(''level'' \<mapsto> PStr ''critical'')"
  have h: "?c ''handler'' = Some (PStr ''syslog'')"
    and sl: "?c ''syslog'' =
      Some (PDict [(''address'', PStr ''/dev/log''), (''facility'', PStr ''not-a-real-facility'')])"
    and nf: "?c ''filename'' = None" and nl: "?c ''loggers'' = None"
    and l: "?c ''level'' = Some (PStr ''info'')" and ha: "hashable (PStr ''info'')"
    by (simp_all add: config_syslog_def hashable_def)
  have lv: "False \<or> (\<exists>v. ?c ''level'' = Some v \<and> hashable v)"
    using l ha by blast
  have h': "?d ''handler'' = Some (PStr ''syslog'')"
    and sl': "?d ''syslog'' =
      Some (PDict [(''address'', PStr ''/dev/log''), (''facility'', PStr ''not-a-real-facility'')])"
    and nf': "?d ''filename'' = None" and nl': "?d ''loggers'' = None"
    and l': "?d ''level'' = Some (PStr ''critical'')" and ha': "hashable (PStr ''critical'')"
    by (simp_all add: config_syslog_def hashable_def)
  have lv': "False \<or> (\<exists>v. ?d ''level'' = Some v \<and> hashable v)"
    using l' ha' by blast
  have a: "application_name (sys_argv0 logging0) = ''rejected''"
    by (simp add: logging0_def application_name_def path_split_tail_def)
  have k: "kwargs_get ?c ''stream'' PNone = PNone"
    "kwargs_get ?c ''format'' (PStr BASIC_FORMAT) = PStr BASIC_FORMAT"
    "kwargs_get ?c ''datefmt'' PNone = PNone"
    "kwargs_get ?d ''stream'' PNone = PNone"
    "kwargs_get ?d ''format'' (PStr BASIC_FORMAT) = PStr BASIC_FORMAT"
    "kwargs_get ?d ''datefmt'' PNone = PNone"
    by (simp_all add: kwargs_get_def config_syslog_def)
  have z: "root_handlers logging0 = []" "emitted logging0 = []" "manager_disable logging0 = 0"
    by (simp_all add: logging0_def)
  have n: "LEVELS (PStr ''info'') = Some 20" "LEVELS (PStr ''critical'') = Some 50" "ERROR = 40"
    by (simp_all add: LEVELS_def INFO_def CRITICAL_def ERROR_def)
  note th = invalid_facility_keeps_stream_handler
              [where cfg = "?c" and debug = False and lg = logging0, OF h sl nf nl lv]
  note th' = invalid_facility_keeps_stream_handler
              [where cfg = "?d" and debug = False and lg = logging0, OF h' sl' nf' nl' lv']
  have r: "root_level (snd (snd (setup_logging ?c False logging0))) = 20"
    using th by (simp add: z l n)
  have r': "root_level (snd (snd (setup_logging ?d False logging0))) = 50"
    using th' by (simp add: z l' n)
  have 1: "fst (setup_logging ?c False logging0) = Ok ()"
    and 2: "root_handlers (snd (snd (setup_logging ?c False logging0))) =
     [StreamHandler PNone (PStr BASIC_FORMAT) PNone]"
    and 3: "emitted (snd (snd (setup_logging ?c False logging0))) =
     [LogRec ''root'' ERROR ''%s:Invalid facility, syslog logging aborted'' [AStr ''rejected'']]"
    using th by (simp_all add: a k z r n(3))
  have 4: "fst (setup_logging ?d False logging0) = Ok ()"
    and 5: "root_handlers (snd (snd (setup_logging ?d False logging0))) =
     [StreamHandler PNone (PStr BASIC_FORMAT) PNone]"
    and 6: "emitted (snd (snd (setup_logging ?d False logging0))) = []"
    using th' by (simp_all add: a k z r' n(3))
  from h sl nf nl l ha 1 2 3 4 5 6 r r' show ?thesis by blast
qed

text \<open>
  The claim as it was stated fails twice on the scenario's configuration, which has no
  \<^verbatim>\<open>level\<close>. With \<^verbatim>\<open>debug=False\<close>, \<^verbatim>\<open>config['level']\<close> raises \<^verbatim>\<open>KeyError\<close> and nothing is
  logged. With \<^verbatim>\<open>debug=True\<close> the error is logged, and it names the application,
  \<^verbatim>\<open>rejected\<close>, where the claim has it name the facility.
\<close>

theorem invalid_facility_counterexample:
  "fst (setup_logging config_syslog False logging0) = Raise (KeyError (PStr ''level'')) \<and>
   emitted (snd (snd (setup_logging config_syslog False logging0))) = [] \<and>
   emitted (snd (snd (setup_logging config_syslog True logging0))) =
     [LogRec ''root'' ERROR ''%s:Invalid facility, syslog logging aborted'' [AStr ''rejected'']]"
proof -
  have 1: "setup_logging config_syslog False logging0 =
             (Raise (KeyError (PStr ''level'')), config_syslog, logging0)"
    by (simp add: setup_logging_def config_syslog_def)
  have 2: "emitted (snd (snd (setup_logging config_syslog True logging0))) =
     [LogRec ''root'' ERROR ''%s:Invalid facility, syslog logging aborted'' [AStr ''rejected'']]"
    by (simp add: setup_logging_def LEVELS_debug basicConfig_def new_handler_def kwargs_get_def
          truthy_val_def root_setLevel_def then_do_Ok set_logging_level_for_loggers_def
          setup_handler_def getitem_def hashable_def not_a_facility logging_error_def Let_def
          root_isEnabledFor_def DEBUG_def ERROR_def
          config_syslog_def logging0_def application_name_def path_split_tail_def)
  have z: "emitted logging0 = []" by (simp add: logging0_def)
  from 1 2 z show ?thesis by simp
qed

text \<open>
  Claim C10, as amended. The caller's dictionary after \<^verbatim>\<open>setup_logging\<close>, whether the call
  returns or raises. When \<^verbatim>\<open>debug\<close> is true it is the dictionary before the call without
  \<^verbatim>\<open>filename\<close> and with \<^verbatim>\<open>level\<close> the number 10, \<^verbatim>\<open>logging.DEBUG\<close>. When \<^verbatim>\<open>debug\<close> is false
  and \<^verbatim>\<open>level\<close> holds a value that can be looked up, \<^verbatim>\<open>level\<close> is replaced by the number of
  that level name, 10, 20, 30, 40 or 50, or by 0, \<^verbatim>\<open>logging.NOTSET\<close>, for any other value,
  and every other entry is as it was. When \<^verbatim>\<open>debug\<close> is false and there is no \<^verbatim>\<open>level\<close>, the
  call raises \<^verbatim>\<open>KeyError\<close>, and when \<^verbatim>\<open>level\<close> is a list or a dictionary it raises
  \<^verbatim>\<open>TypeError\<close>; in both cases the dictionary is left as it was.
\<close>

theorem setup_logging_mutates_config:
  "fst (snd (setup_logging cfg debug lg)) =
     (if debug then (cfg(''filename'' := None))(''level'' \<mapsto> PInt 10)
      else case cfg ''level'' of
             None \<Rightarrow> cfg
           | Some v \<Rightarrow>
               if hashable v
               then cfg(''level'' \<mapsto> PInt (if v = PStr ''debug'' then 10
                                          else if v = PStr ''info'' then 20
                                          else if v = PStr ''warning'' then 30
                                          else if v = PStr ''error'' then 40
                                          else if v = PStr ''critical'' then 50
                                          else 0))
               else cfg) \<and>
   (\<not> debug \<and> cfg ''level'' = None \<longrightarrow>
      fst (setup_logging cfg debug lg) = Raise (KeyError (PStr ''level''))) \<and>
   (\<not> debug \<and> (\<exists>v. cfg ''level'' = Some v \<and> \<not> hashable v) \<longrightarrow>
      fst (setup_logging cfg debug lg) = Raise TypeError)"
proof (cases debug)
  case True
  have E: "(cfg(''level'' \<mapsto> PStr ''debug'', ''filename'' := None))(''level'' \<mapsto> PInt n)
             = (cfg(''filename'' := None))(''level'' \<mapsto> PInt n)" for n
    by (rule ext) simp
  from True show ?thesis
    by (simp add: setup_logging_def LEVELS_get_def hashable_def E Let_def LEVELS_def DEBUG_def
          split: prod.splits)
next
  case False
  show ?thesis
  proof (cases "cfg ''level''")
    case None
    with False show ?thesis by (simp add: setup_logging_def)
  next
    case (Some v)
    show ?thesis
    proof (cases "hashable v")
      case h: False
      with False Some show ?thesis by (simp add: setup_logging_def LEVELS_get_def)
    next
      case h: True
      have n: "(case LEVELS v of None \<Rightarrow> NOTSET | Some level \<Rightarrow> level) =
                 (if v = PStr ''debug'' then 10
                  else if v = PStr ''info'' then 20
                  else if v = PStr ''warning'' then 30
                  else if v = PStr ''error'' then 40
                  else if v = PStr ''critical'' then 50
                  else 0)"
        by (simp add: LEVELS_def NOTSET_def DEBUG_def INFO_def WARNING_def ERROR_def CRITICAL_def)
      from False Some h show ?thesis
        by (simp add: setup_logging_def LEVELS_get_def n Let_def split: prod.splits)
    qed
  qed
qed

theorem setup_logging_mutates_config_witness:
  "fst (snd (setup_logging config_debug False logging0)) =
     [''level'' \<mapsto> PInt 30, ''filename'' \<mapsto> PStr ''/var/log/app.log'',
      ''format'' \<mapsto> PStr ''%(message)s''] \<and>
   fst (snd (setup_logging (config_debug(''level'' \<mapsto> PStr ''verbose'')) False logging0)) =
     [''level'' \<mapsto> PInt 0, ''filename'' \<mapsto> PStr ''/var/log/app.log'',
      ''format'' \<mapsto> PStr ''%(message)s''] \<and>
   fst (snd (setup_logging config_debug True logging0)) =
     [''level'' \<mapsto> PInt 10, ''format'' \<mapsto> PStr ''%(message)s''] \<and>
   \<not> False \<and> config_syslog ''level'' = None \<and>
   fst (setup_logging config_syslog False logging0) = Raise (KeyError (PStr ''level'')) \<and>
   fst (snd (setup_logging config_syslog False logging0)) = config_syslog \<and>
   (config_debug(''level'' \<mapsto> PList [PStr ''debug''])) ''level'' = Some (PList [PStr ''debug'']) \<and>
   \<not> hashable (PList [PStr ''debug'']) \<and>
   fst (setup_logging (config_debug(''level'' \<mapsto> PList [PStr ''debug''])) False logging0) =
     Raise TypeError \<and>
   fst (snd (setup_logging (config_debug(''level'' \<mapsto> PList [PStr ''debug''])) False logging0)) =
     config_debug(''level'' \<mapsto> PList [PStr ''debug''])"
proof -
  let ?v = "config_debug(''level'' \<mapsto> PStr ''verbose'')"
  let ?l = "config_debug(''level'' \<mapsto> PList [PStr ''debug''])"
  have l: "config_debug ''level'' = Some (PStr ''warning'')" "?v ''level'' = Some (PStr ''verbose'')"
    "config_syslog ''level'' = None" "?l ''level'' = Some (PList [PStr ''debug''])"
    by (simp_all add: config_debug_def config_syslog_def)
  have ha: "hashable (PStr ''warning'')" "hashable (PStr ''verbose'')"
    "\<not> hashable (PList [PStr ''debug''])"
    by (simp_all add: hashable_def)
  have m: "config_debug(''level'' \<mapsto> PInt 30) =
             [''level'' \<mapsto> PInt 30, ''filename'' \<mapsto> PStr ''/var/log/app.log'',
              ''format'' \<mapsto> PStr ''%(message)s'']"
    "config_debug(''level'' \<mapsto> PInt 0) =
             [''level'' \<mapsto> PInt 0, ''filename'' \<mapsto> PStr ''/var/log/app.log'',
              ''format'' \<mapsto> PStr ''%(message)s'']"
    "(config_debug(''filename'' := None))(''level'' \<mapsto> PInt 10) =
             [''level'' \<mapsto> PInt 10, ''format'' \<mapsto> PStr ''%(message)s'']"
    by (rule ext, simp add: config_debug_def)+
  note t1 = setup_logging_mutates_config [where cfg = config_debug and debug = False and lg = logging0]
  note t2 = setup_logging_mutates_config [where cfg = "?v" and debug = False and lg = logging0]
  note t3 = setup_logging_mutates_config [where cfg = config_debug and debug = True and lg = logging0]
  note t4 = setup_logging_mutates_config [where cfg = config_syslog and debug = False and lg = logging0]
  note t5 = setup_logging_mutates_config [where cfg = "?l" and debug = False and lg = logging0]
  have 1: "fst (snd (setup_logging config_debug False logging0)) =
     [''level'' \<mapsto> PInt 30, ''filename'' \<mapsto> PStr ''/var/log/app.log'',
      ''format'' \<mapsto> PStr ''%(message)s'']"
    using t1 [THEN conjunct1] by (simp add: l ha m)
  have 2: "fst (snd (setup_logging ?v False logging0)) =
     [''level'' \<mapsto> PInt 0, ''filename'' \<mapsto> PStr ''/var/log/app.log'',
      ''format'' \<mapsto> PStr ''%(message)s'']"
    using t2 [THEN conjunct1] unfolding l option.case by (simp add: ha m)
  have 3: "fst (snd (setup_logging config_debug True logging0)) =
     [''level'' \<mapsto> PInt 10, ''format'' \<mapsto> PStr ''%(message)s'']"
    using t3 [THEN conjunct1] by (simp add: m)
  have 4: "fst (setup_logging config_syslog False logging0) = Raise (KeyError (PStr ''level''))"
    "fst (snd (setup_logging config_syslog False logging0)) = config_syslog"
    using t4 by (simp_all add: l)
  have 5: "fst (setup_logging ?l False logging0) = Raise TypeError"
    "fst (snd (setup_logging ?l False logging0)) = ?l"
    using t5 unfolding l option.case by (simp_all add: ha)
  from 1 2 3 4 5 l(3,4) ha(3) show ?thesis by blast
qed

text \<open>
  The claim as it was stated fails where it says \<^verbatim>\<open>always\<close>. On the configuration of the
  syslog scenario, which has no \<^verbatim>\<open>level\<close>, the call with \<^verbatim>\<open>debug=False\<close> raises \<^verbatim>\<open>KeyError\<close>
  and the dictionary is what it was, without a \<^verbatim>\<open>level\<close>; and with the level
  \<^verbatim>\<open>['debug']\<close> it raises \<^verbatim>\<open>TypeError\<close> and the dictionary still holds the list.
\<close>

theorem setup_logging_level_not_replaced_counterexample:
  "setup_logging config_syslog False logging0 =
     (Raise (KeyError (PStr ''level'')), config_syslog, logging0) \<and>
   config_syslog ''level'' = None \<and>
   setup_logging (config_debug(''level'' \<mapsto> PList [PStr ''debug''])) False logging0 =
     (Raise TypeError, config_debug(''level'' \<mapsto> PList [PStr ''debug'']), logging0) \<and>
   (config_debug(''level'' \<mapsto> PList [PStr ''debug''])) ''level'' = Some (PList [PStr ''debug''])"
  by (simp add: setup_logging_def config_syslog_def LEVELS_get_def hashable_def)

end
